theory Spec2Isabelle
  imports Main "HOL-Library.Char_ord" "HOL-Library.List_Lexorder" "HOL-Library.Option_ord"
    "HOL-Library.Product_Lexorder"
begin

section \<open>Punch-card data tool: normalisation, integration and night-meal eligibility\<close>

text \<open>
  The development embeds the Python scripts of the repository: the ETL script
  (\<open>clean_and_store_excel\<close>, \<open>convert_date_time_format\<close>, \<open>integrate_data\<close>, \<open>main\<close>) and
  the night-meal evaluators (\<open>check_night_meal\<close>, \<open>process_night_meal_data\<close>, in the variant
  that parses the date and in the variant that slices it).

  Conventions. Strings are \<open>string\<close>, one \<open>char\<close> per character of the source string (code
  points below 256). A SQL NULL, a pandas \<open>None\<close>/\<open>NaN\<close> is \<open>None\<close> of an option type. An
  exception is a value \<open>Inl e\<close> of a sum type. The column labels of the source are CJK words;
  the model writes them in ASCII: \<open>seq\<close> (sequence number), \<open>account\<close>, \<open>card_no\<close>, \<open>name\<close>,
  \<open>shift_class\<close>, \<open>punch_date\<close>, \<open>punch_time\<close>, and \<open>punch_time1\<close>, \<open>punch_time2\<close>, ... for
  the pivoted time columns.
\<close>

subsection \<open>Errors, digits and decimal numerals\<close>

datatype py_error =
  ValueError | KeyError | TypeError | IndexError | FileNotFoundError | SqlError | OverflowError

definition is_digit :: "char \<Rightarrow> bool" where
  "is_digit c \<longleftrightarrow> CHR ''0'' \<le> c \<and> c \<le> CHR ''9''"

definition digit_val :: "char \<Rightarrow> nat" where
  "digit_val c = of_char c - 48"

definition digit_char :: "nat \<Rightarrow> char" where
  "digit_char n = char_of (48 + n)"

text \<open>\<open>int(s)\<close> on a string of decimal digits.\<close>

definition nat_of_digits :: "string \<Rightarrow> nat" where
  "nat_of_digits s = foldl (\<lambda>a c. 10 * a + digit_val c) 0 s"

text \<open>\<open>str(n)\<close> of a natural number, and of an integer.\<close>

function str_of_nat :: "nat \<Rightarrow> string" where
  "str_of_nat n = (if n < 10 then [digit_char n] else str_of_nat (n div 10) @ [digit_char (n mod 10)])"
  by pat_completeness auto
termination
  by (relation "measure (\<lambda>n. n)") auto

declare str_of_nat.simps [simp del]

definition str_of_int :: "int \<Rightarrow> string" where
  "str_of_int i = (if i < 0 then CHR ''-'' # str_of_nat (nat (- i)) else str_of_nat (nat i))"

text \<open>\<open>s.split(c)\<close> of Python for a one-character separator: always at least one field.\<close>

fun split_on :: "char \<Rightarrow> string \<Rightarrow> string list" where
  "split_on c [] = [[]]"
| "split_on c (x # xs) =
     (if x = c then [] # split_on c xs
      else (case split_on c xs of [] \<Rightarrow> [[x]] | y # ys \<Rightarrow> (x # y) # ys))"

text \<open>The Python slice \<open>s[i:j]\<close> for \<open>0 \<le> i \<le> j\<close>: never raises, truncates at the end.\<close>

definition slice :: "nat \<Rightarrow> nat \<Rightarrow> 'a list \<Rightarrow> 'a list" where
  "slice i j s = take (j - i) (drop i s)"

subsection \<open>Times of day and \<open>datetime.strptime\<close>\<close>

text \<open>
  A \<open>datetime.time\<close> without microseconds and time zone. Python compares two such values
  as the tuples (hour, minute, second).
\<close>

record time_of_day =
  hour :: nat
  minute :: nat
  second :: nat

definition time_gt :: "time_of_day \<Rightarrow> time_of_day \<Rightarrow> bool" where
  "time_gt a b \<longleftrightarrow>
     hour a > hour b \<or>
     (hour a = hour b \<and> (minute a > minute b \<or> (minute a = minute b \<and> second a > second b)))"

text \<open>
  A numeric field of a \<open>strptime\<close> directive: one or two decimal digits, as the
  regular expressions of \<open>%H\<close> (\<open>2[0-3]|[0-1]\d|\d\<close>), \<open>%M\<close> (\<open>[0-5]\d|\d\<close>),
  \<open>%S\<close> (\<open>6[0-1]|[0-5]\d|\d\<close>), \<open>%m\<close> (\<open>1[0-2]|0[1-9]|[1-9]\<close>) and of the digit forms of
  \<open>%d\<close> (\<open>3[0-1]|[1-2]\d|0[1-9]|[1-9]\<close>) accept together with the bound on the value.
\<close>

definition field12 :: "string \<Rightarrow> nat option" where
  "field12 f =
     (if (length f = 1 \<or> length f = 2) \<and> list_all is_digit f then Some (nat_of_digits f)
      else None)"

text \<open>
  \<open>datetime.strptime(s, '%H:%M:%S').time()\<close>. The three fields are separated by colons and
  the whole string must be consumed; a second of 60 or 61 passes the regular expression
  and is then refused by the constructor, so every failure is a \<open>ValueError\<close>.
\<close>

definition strptime_time :: "string \<Rightarrow> py_error + time_of_day" where
  "strptime_time s =
     (case split_on CHR '':'' s of
        [h, m, sec] \<Rightarrow>
          (case (field12 h, field12 m, field12 sec) of
             (Some a, Some b, Some c) \<Rightarrow>
               if a \<le> 23 \<and> b \<le> 59 \<and> c \<le> 61 \<and> c \<le> 59
               then Inr \<lparr>hour = a, minute = b, second = c\<rparr>
               else Inl ValueError
           | _ \<Rightarrow> Inl ValueError)
      | _ \<Rightarrow> Inl ValueError)"

text \<open>\<open>parse_time\<close> of the evaluators: \<open>None\<close> for a null, else the parsed time.\<close>

definition parse_time :: "string option \<Rightarrow> py_error + time_of_day option" where
  "parse_time time_str =
     (case time_str of
        None \<Rightarrow> Inr None
      | Some s \<Rightarrow> (case strptime_time s of Inl e \<Rightarrow> Inl e | Inr t \<Rightarrow> Inr (Some t)))"

subsection \<open>Rows of \<open>integrated_punch\<close> and \<open>check_night_meal\<close>\<close>

text \<open>
  A row of the table \<open>integrated_punch\<close>, as the evaluators read it into a pandas Series:
  the five fixed columns and the time columns, each a label with its cell.
\<close>

record ip_row =
  ip_account :: "string option"
  ip_card_no :: "string option"
  ip_name :: "string option"
  ip_class :: "string option"
  ip_date :: "string option"
  ip_times :: "(string \<times> string option) list"

text \<open>\<open>row[col]\<close> for a time column: \<open>KeyError\<close> when the row has no such label.\<close>

definition row_get :: "ip_row \<Rightarrow> string \<Rightarrow> py_error + string option" where
  "row_get row col = (case map_of (ip_times row) col of None \<Rightarrow> Inl KeyError | Some v \<Rightarrow> Inr v)"

text \<open>The rewriting of a six-character time \<open>HHMMSS\<close> inside \<open>check_night_meal\<close>.\<close>

definition colonize6 :: "string \<Rightarrow> string" where
  "colonize6 s =
     (if length s = 6 then slice 0 2 s @ '':'' @ slice 2 4 s @ '':'' @ slice 4 6 s else s)"

text \<open>
  The loop of \<open>check_night_meal\<close> over the reversed time columns: the first cell that is
  not null decides (the function returns there); no such cell gives \<open>False\<close>.
\<close>

fun check_night_meal_loop :: "ip_row \<Rightarrow> string list \<Rightarrow> time_of_day \<Rightarrow> py_error + bool" where
  "check_night_meal_loop row [] night_meal_threshold = Inr False"
| "check_night_meal_loop row (col # cols) night_meal_threshold =
     (case row_get row col of
        Inl e \<Rightarrow> Inl e
      | Inr None \<Rightarrow> check_night_meal_loop row cols night_meal_threshold
      | Inr (Some last_time_str) \<Rightarrow>
          (case strptime_time (colonize6 last_time_str) of
             Inl e \<Rightarrow> Inl e
           | Inr last_time \<Rightarrow> Inr (time_gt last_time night_meal_threshold)))"

definition check_night_meal :: "ip_row \<Rightarrow> string list \<Rightarrow> time_of_day \<Rightarrow> py_error + bool" where
  "check_night_meal row time_columns night_meal_threshold =
     check_night_meal_loop row (rev time_columns) night_meal_threshold"

subsection \<open>Dates: \<open>strptime\<close> with \<open>%Y-%m-%d\<close> and the format \<open>:02\<close>\<close>

record date_ymd =
  d_year :: nat
  d_month :: nat
  d_day :: nat

definition is_leap :: "nat \<Rightarrow> bool" where
  "is_leap y \<longleftrightarrow> y mod 4 = 0 \<and> (y mod 100 \<noteq> 0 \<or> y mod 400 = 0)"

definition days_in_month :: "nat \<Rightarrow> nat \<Rightarrow> nat" where
  "days_in_month y m =
     (if m = 2 then (if is_leap y then 29 else 28)
      else if m = 4 \<or> m = 6 \<or> m = 9 \<or> m = 11 then 30 else 31)"

text \<open>The field of \<open>%d\<close>: one or two digits, or a space and one digit.\<close>

definition day_field :: "string \<Rightarrow> nat option" where
  "day_field f =
     (case f of
        [sp, d] \<Rightarrow>
          if sp = CHR '' '' then (if is_digit d then Some (digit_val d) else None)
          else field12 f
      | _ \<Rightarrow> field12 f)"

text \<open>
  \<open>datetime.strptime(s, '%Y-%m-%d')\<close>: a year of exactly four digits, a month of value
  1..12, a day of value 1..31, separated by hyphens, the whole string consumed; then the
  date must exist (year at least 1, day within the month). Every failure is a
  \<open>ValueError\<close>.
\<close>

definition strptime_date :: "string \<Rightarrow> py_error + date_ymd" where
  "strptime_date s =
     (case split_on CHR ''-'' s of
        [y, m, d] \<Rightarrow>
          if length y = 4 \<and> list_all is_digit y then
            (case (field12 m, day_field d) of
               (Some mv, Some dv) \<Rightarrow>
                 if 1 \<le> mv \<and> mv \<le> 12 \<and> 1 \<le> dv \<and> dv \<le> 31 \<and>
                    1 \<le> nat_of_digits y \<and> dv \<le> days_in_month (nat_of_digits y) mv
                 then Inr \<lparr>d_year = nat_of_digits y, d_month = mv, d_day = dv\<rparr>
                 else Inl ValueError
             | _ \<Rightarrow> Inl ValueError)
          else Inl ValueError
      | _ \<Rightarrow> Inl ValueError)"

text \<open>The f-string format \<open>{n:02}\<close> of a natural number.\<close>

definition fmt02 :: "nat \<Rightarrow> string" where
  "fmt02 n = (if n < 10 then [CHR ''0'', digit_char n] else str_of_nat n)"

subsection \<open>The evaluators: \<open>process_night_meal_data\<close>\<close>

text \<open>The rules of a class: its name (a class may be NULL) and its threshold.\<close>

record rules =
  class_name :: "string option"
  night_meal_threshold :: time_of_day

text \<open>
  The threshold \<open>create_rules_dict\<close> gives every class of the table: the value of
  \<open>parse_time('22:00:00')\<close>.
\<close>

definition default_threshold :: time_of_day where
  "default_threshold = \<lparr>hour = 22, minute = 0, second = 0\<rparr>"

definition create_rules_dict :: "ip_row list \<Rightarrow> (string option \<times> rules) list" where
  "create_rules_dict table =
     map (\<lambda>c. (c, \<lparr>class_name = c, night_meal_threshold = default_threshold\<rparr>))
       (remdups (map ip_class table))"

text \<open>An entry of \<open>night_meal_data\<close>: card number, account, name, month, day.\<close>

record nm_record =
  rec_card_no :: "string option"
  rec_account :: "string option"
  rec_name :: "string option"
  rec_month :: string
  rec_day :: string

text \<open>
  The state of the loop: the list under construction and the dictionary
  \<open>processed_dates\<close> from an account to the set of its dates already recorded.
\<close>

record eval_state =
  night_meal_data :: "nm_record list"
  processed_dates :: "string option \<rightharpoonup> string set"

definition init_state :: eval_state where
  "init_state = \<lparr>night_meal_data = [], processed_dates = Map.empty\<rparr>"

text \<open>
  The query of \<open>process_night_meal_data\<close>: the rows of the class, ordered by card number,
  class, account, name and date (SQLite puts NULL first and compares text by code
  point). Rows that agree on all five sort columns keep their table order here; SQL
  leaves their order open. The class name is assumed to hold no quote character, which
  the interpolated query text would not survive.
\<close>

definition order_key ::
  "ip_row \<Rightarrow> string option \<times> string option \<times> string option \<times> string option \<times> string option"
where
  "order_key r = (ip_card_no r, ip_class r, ip_account r, ip_name r, ip_date r)"

definition select_class_rows :: "string \<Rightarrow> ip_row list \<Rightarrow> ip_row list" where
  "select_class_rows cname table = sort_key order_key (filter (\<lambda>r. ip_class r = Some cname) table)"

text \<open>\<open>for _, row in data.iterrows(): ...\<close> with a body that may raise.\<close>

fun for_rows :: "('r \<Rightarrow> 's \<Rightarrow> py_error + 's) \<Rightarrow> 'r list \<Rightarrow> 's \<Rightarrow> py_error + 's" where
  "for_rows body [] st = Inr st"
| "for_rows body (row # data) st =
     (case body row st of Inl e \<Rightarrow> Inl e | Inr st' \<Rightarrow> for_rows body data st')"

text \<open>\<open>if account not in processed_dates: processed_dates[account] = set()\<close>\<close>

definition touch_account ::
  "(string option \<rightharpoonup> string set) \<Rightarrow> string option \<Rightarrow> (string option \<rightharpoonup> string set)" where
  "touch_account pd account = (case pd account of None \<Rightarrow> pd(account \<mapsto> {}) | Some _ \<Rightarrow> pd)"

definition dates_of :: "(string option \<rightharpoonup> string set) \<Rightarrow> string option \<Rightarrow> string set" where
  "dates_of pd account = (case pd account of None \<Rightarrow> {} | Some ds \<Rightarrow> ds)"

text \<open>
  The tail of the loop body, common to both variants: the eligibility test, the
  duplicate test against \<open>processed_dates\<close>, and the append.
\<close>

definition record_if_eligible ::
  "rules \<Rightarrow> string list \<Rightarrow> ip_row \<Rightarrow> string \<Rightarrow> string \<Rightarrow> string \<Rightarrow> eval_state \<Rightarrow> py_error + eval_state"
where
  "record_if_eligible rl time_columns row date month day st =
     (let account = ip_account row;
          pd = touch_account (processed_dates st) account
      in case check_night_meal row time_columns (night_meal_threshold rl) of
           Inl e \<Rightarrow> Inl e
         | Inr night_meal_recorded \<Rightarrow>
             if night_meal_recorded \<and> date \<notin> dates_of pd account
             then Inr \<lparr>night_meal_data = night_meal_data st @
                          [\<lparr>rec_card_no = ip_card_no row, rec_account = account,
                            rec_name = ip_name row, rec_month = month, rec_day = day\<rparr>],
                       processed_dates = pd(account \<mapsto> insert date (dates_of pd account))\<rparr>
             else Inr \<lparr>night_meal_data = night_meal_data st, processed_dates = pd\<rparr>)"

text \<open>
  The body of the variant that slices the date (\<open>day = date[8:10]\<close>,
  \<open>month = date[5:7]\<close>); slicing a null date raises \<open>TypeError\<close>.
\<close>

definition body_slice :: "rules \<Rightarrow> string list \<Rightarrow> ip_row \<Rightarrow> eval_state \<Rightarrow> py_error + eval_state" where
  "body_slice rl time_columns row st =
     (case ip_date row of
        None \<Rightarrow> Inl TypeError
      | Some date \<Rightarrow>
          record_if_eligible rl time_columns row date (slice 5 7 date) (slice 8 10 date) st)"

text \<open>
  The body of the variant that parses the date: a \<open>ValueError\<close> of \<open>strptime\<close> is caught
  and the row skipped (\<open>continue\<close>); a null date raises \<open>TypeError\<close>, which is not caught.
\<close>

definition body_parse :: "rules \<Rightarrow> string list \<Rightarrow> ip_row \<Rightarrow> eval_state \<Rightarrow> py_error + eval_state" where
  "body_parse rl time_columns row st =
     (case ip_date row of
        None \<Rightarrow> Inl TypeError
      | Some date_str \<Rightarrow>
          (case strptime_date date_str of
             Inl e \<Rightarrow> Inr st
           | Inr date_obj \<Rightarrow>
               record_if_eligible rl time_columns row date_str
                 (fmt02 (d_month date_obj)) (fmt02 (d_day date_obj)) st))"

definition process_night_meal_data_slice ::
  "ip_row list \<Rightarrow> string \<Rightarrow> rules \<Rightarrow> string list \<Rightarrow> py_error + nm_record list" where
  "process_night_meal_data_slice table cname rl time_columns =
     (case for_rows (body_slice rl time_columns) (select_class_rows cname table) init_state of
        Inl e \<Rightarrow> Inl e
      | Inr st \<Rightarrow> Inr (night_meal_data st))"

definition process_night_meal_data_parse ::
  "ip_row list \<Rightarrow> string \<Rightarrow> rules \<Rightarrow> string list \<Rightarrow> py_error + nm_record list" where
  "process_night_meal_data_parse table cname rl time_columns =
     (case for_rows (body_parse rl time_columns) (select_class_rows cname table) init_state of
        Inl e \<Rightarrow> Inl e
      | Inr st \<Rightarrow> Inr (night_meal_data st))"

subsection \<open>Data frames, workbooks and the database\<close>

text \<open>
  A cell of a sheet or of a table: empty (\<open>NaN\<close>, NULL), a number, or a text. A data
  frame has its column labels and its rows; a sheet of a workbook is its grid of cells,
  taken to be rectangular. A workbook is the list of its sheets in order.
\<close>

datatype cell = NA | Num int | Text string

record frame =
  columns :: "cell list"
  rows :: "cell list list"

type_synonym sheet = "cell list list"
type_synonym workbook = "sheet list"

text \<open>The three tables of the SQLite file; \<open>None\<close> is a table that does not exist.\<close>

record database =
  punch :: "frame option"
  shift_class :: "frame option"
  integrated_punch :: "ip_row list option"

definition empty_db :: database where
  "empty_db = \<lparr>punch = None, shift_class = None, integrated_punch = None\<rparr>"

text \<open>
  \<open>pd.read_excel(path, sheet_name, skiprows=k)\<close>: the first row after the skipped ones
  gives the column labels, the rows after it are the data.
\<close>

definition read_excel :: "nat \<Rightarrow> sheet \<Rightarrow> frame" where
  "read_excel skiprows grid =
     (case drop skiprows grid of
        [] \<Rightarrow> \<lparr>columns = [], rows = []\<rparr>
      | header # body \<Rightarrow> \<lparr>columns = header, rows = body\<rparr>)"

definition keep_cols :: "bool list \<Rightarrow> 'a list \<Rightarrow> 'a list" where
  "keep_cols flags xs = map fst (filter snd (zip xs flags))"

fun col_index :: "cell \<Rightarrow> cell list \<Rightarrow> nat option" where
  "col_index label [] = None"
| "col_index label (c # cs) = (if c = label then Some 0 else map_option Suc (col_index label cs))"

definition cell_at :: "nat \<Rightarrow> cell list \<Rightarrow> cell" where
  "cell_at i r = (if i < length r then r ! i else NA)"

definition map_col :: "nat \<Rightarrow> (cell \<Rightarrow> cell) \<Rightarrow> cell list \<Rightarrow> cell list" where
  "map_col i f r = (if i < length r then r[i := f (r ! i)] else r)"

text \<open>
  \<open>pd.to_numeric(column, errors='coerce').notnull()\<close> on one cell. Which texts pandas
  reads as a number is a parameter of the model.
\<close>

definition to_numeric_notnull :: "(string \<Rightarrow> bool) \<Rightarrow> cell \<Rightarrow> bool" where
  "to_numeric_notnull numeric_text c =
     (case c of NA \<Rightarrow> False | Num n \<Rightarrow> True | Text s \<Rightarrow> numeric_text s)"

text \<open>\<open>df.dropna(axis=1, how='all')\<close>: a column stays when some row has a cell in it.\<close>

definition dropna_all_cols :: "frame \<Rightarrow> frame" where
  "dropna_all_cols df =
     (let flags = map (\<lambda>j. list_ex (\<lambda>r. cell_at j r \<noteq> NA) (rows df)) [0..<length (columns df)]
      in \<lparr>columns = keep_cols flags (columns df), rows = map (keep_cols flags) (rows df)\<rparr>)"

text \<open>\<open>df[col] = df[col].astype(str)\<close>, when the frame has the column.\<close>

definition astype_str :: "cell \<Rightarrow> cell" where
  "astype_str c = (case c of NA \<Rightarrow> Text ''nan'' | Num n \<Rightarrow> Text (str_of_int n) | Text s \<Rightarrow> Text s)"

definition astype_str_col :: "cell \<Rightarrow> frame \<Rightarrow> frame" where
  "astype_str_col label df =
     (case col_index label (columns df) of
        None \<Rightarrow> df
      | Some i \<Rightarrow> df\<lparr>rows := map (map_col i astype_str) (rows df)\<rparr>)"

subsection \<open>\<open>clean_and_store_excel\<close>\<close>

text \<open>
  The cleaning of one sheet, in the order of the source: read with four rows skipped;
  the first data row becomes the labels (\<open>df.iloc[0]\<close>, an \<open>IndexError\<close> on a frame
  without rows) and is dropped; columns with an empty label go; rows whose \<open>seq\<close> cell is
  not numeric go, when there is such a column; columns that are empty throughout go; the
  date and time columns become text.
\<close>

definition clean_sheet :: "(string \<Rightarrow> bool) \<Rightarrow> sheet \<Rightarrow> py_error + frame" where
  "clean_sheet numeric_text grid =
     (case rows (read_excel 4 grid) of
        [] \<Rightarrow> Inl IndexError
      | first # rest \<Rightarrow>
          (let flags = map (\<lambda>c. c \<noteq> NA) first;
               df1 = \<lparr>columns = keep_cols flags first, rows = map (keep_cols flags) rest\<rparr>;
               df2 = (case col_index (Text ''seq'') (columns df1) of
                        None \<Rightarrow> df1
                      | Some i \<Rightarrow>
                          df1\<lparr>rows := filter (\<lambda>r. to_numeric_notnull numeric_text (cell_at i r))
                                         (rows df1)\<rparr>);
               df3 = dropna_all_cols df2
           in Inr (astype_str_col (Text ''punch_time'') (astype_str_col (Text ''punch_date'') df3))))"

text \<open>
  The name of a column in SQLite is the text of its label; two names are the same
  column when they agree up to the case of their ASCII letters. An integer is stored
  in 64 bits.
\<close>

definition ascii_lower :: "char \<Rightarrow> char" where
  "ascii_lower c = (if CHR ''A'' \<le> c \<and> c \<le> CHR ''Z'' then char_of (of_char c + (32::nat)) else c)"

definition column_name :: "cell \<Rightarrow> string" where
  "column_name c =
     map ascii_lower (case c of NA \<Rightarrow> ''nan'' | Num n \<Rightarrow> str_of_int n | Text s \<Rightarrow> s)"

definition sqlite_int_ok :: "cell \<Rightarrow> bool" where
  "sqlite_int_ok c =
     (case c of
        Num n \<Rightarrow> - 9223372036854775808 \<le> n \<and> n \<le> 9223372036854775807
      | _ \<Rightarrow> True)"

text \<open>
  \<open>df.to_sql('punch', conn, if_exists='replace', index=False)\<close>: the table is dropped and
  created again from the frame, which SQLite refuses for a frame without columns and
  for one that names a column twice; then the rows are inserted, which raises
  \<open>OverflowError\<close> for an integer that does not fit.
\<close>

definition to_sql_replace :: "frame \<Rightarrow> py_error + frame" where
  "to_sql_replace df =
     (if columns df = [] \<or> \<not> distinct (map column_name (columns df)) then Inl SqlError
      else if \<not> list_all (list_all sqlite_int_ok) (rows df) then Inl OverflowError
      else Inr df)"

text \<open>
  The loop over the sheets. \<open>file_exists\<close> is the value of \<open>Path(file_path).exists()\<close>;
  a sheet is skipped when it is false. The cleaned frame takes the place of the table
  \<open>punch\<close>; its row count is added to the running total.
\<close>

fun clean_and_store_loop ::
  "(string \<Rightarrow> bool) \<Rightarrow> bool \<Rightarrow> workbook \<Rightarrow> database \<Rightarrow> nat \<Rightarrow> py_error + (database \<times> nat)" where
  "clean_and_store_loop numeric_text file_exists [] db total_processed_rows =
     Inr (db, total_processed_rows)"
| "clean_and_store_loop numeric_text file_exists (sheet # sheets) db total_processed_rows =
     (if \<not> file_exists
      then clean_and_store_loop numeric_text file_exists sheets db total_processed_rows
      else (case clean_sheet numeric_text sheet of
              Inl e \<Rightarrow> Inl e
            | Inr df \<Rightarrow>
                (case to_sql_replace df of
                   Inl e \<Rightarrow> Inl e
                 | Inr stored \<Rightarrow>
                     clean_and_store_loop numeric_text file_exists sheets
                       (db\<lparr>punch := Some stored\<rparr>) (total_processed_rows + length (rows df)))))"

definition clean_and_store_excel ::
  "(string \<Rightarrow> bool) \<Rightarrow> bool \<Rightarrow> workbook \<Rightarrow> database \<Rightarrow> py_error + (database \<times> nat)" where
  "clean_and_store_excel numeric_text file_exists excel_data db =
     clean_and_store_loop numeric_text file_exists excel_data db 0"

subsection \<open>\<open>convert_date_time_format\<close>\<close>

text \<open>
  SQLite reads a text up to its first NUL character: \<open>LENGTH(s)\<close> counts the characters
  before it, and \<open>SUBSTR(s, start, n)\<close> (for a start of at least 1) cuts among them.
\<close>

definition sql_chars :: "string \<Rightarrow> string" where
  "sql_chars s = takeWhile (\<lambda>c. c \<noteq> CHR 0x00) s"

definition sql_length :: "string \<Rightarrow> nat" where
  "sql_length s = length (sql_chars s)"

definition substr :: "string \<Rightarrow> nat \<Rightarrow> nat \<Rightarrow> string" where
  "substr s start n = take n (drop (start - 1) (sql_chars s))"

text \<open>
  SQLite's \<open>CAST(text AS INTEGER)\<close>: white space is skipped, then the longest prefix
  that reads as a decimal integer is taken, 0 when there is none. (The model does not
  saturate at 64 bits; the cast is applied to three characters.)
\<close>

definition sqlite_isspace :: "char \<Rightarrow> bool" where
  "sqlite_isspace c \<longleftrightarrow> c = CHR '' '' \<or> (CHR 0x09 \<le> c \<and> c \<le> CHR 0x0D)"

definition sqlite_cast_integer :: "string \<Rightarrow> int" where
  "sqlite_cast_integer s =
     (case dropWhile sqlite_isspace s of
        [] \<Rightarrow> 0
      | c # r \<Rightarrow>
          if c = CHR ''-'' then - int (nat_of_digits (takeWhile is_digit r))
          else if c = CHR ''+'' then int (nat_of_digits (takeWhile is_digit r))
          else int (nat_of_digits (takeWhile is_digit (c # r))))"

text \<open>The two \<open>CASE\<close> expressions of the \<open>UPDATE\<close> statements, on a text.\<close>

definition convert_date_value :: "string \<Rightarrow> string" where
  "convert_date_value d =
     (if sql_length d = 7
      then str_of_int (sqlite_cast_integer (substr d 1 3) + 1911) @ ''-'' @ substr d 4 2 @
           ''-'' @ substr d 6 2
      else d)"

definition convert_time_value :: "string \<Rightarrow> string" where
  "convert_time_value t =
     (if sql_length t = 4 then substr t 1 2 @ '':'' @ substr t 3 2 @ '':00'' else t)"

text \<open>
  The same on a stored cell: NULL stays NULL (\<open>LENGTH(NULL)\<close> is NULL, the \<open>ELSE\<close> branch
  applies); a number is measured and cut as its decimal text and is left as it is by
  the \<open>ELSE\<close> branch.
\<close>

definition update_date_cell :: "cell \<Rightarrow> cell" where
  "update_date_cell c =
     (case c of
        NA \<Rightarrow> NA
      | Text s \<Rightarrow> Text (convert_date_value s)
      | Num n \<Rightarrow>
          if sql_length (str_of_int n) = 7 then Text (convert_date_value (str_of_int n)) else Num n)"

definition update_time_cell :: "cell \<Rightarrow> cell" where
  "update_time_cell c =
     (case c of
        NA \<Rightarrow> NA
      | Text s \<Rightarrow> Text (convert_time_value s)
      | Num n \<Rightarrow>
          if sql_length (str_of_int n) = 4 then Text (convert_time_value (str_of_int n)) else Num n)"

text \<open>\<open>UPDATE punch SET col = ...\<close>: an SQL error when the table has no such column.\<close>

definition update_column :: "cell \<Rightarrow> (cell \<Rightarrow> cell) \<Rightarrow> frame \<Rightarrow> py_error + frame" where
  "update_column label f df =
     (case col_index label (columns df) of
        None \<Rightarrow> Inl SqlError
      | Some i \<Rightarrow> Inr (df\<lparr>rows := map (map_col i f) (rows df)\<rparr>))"

definition convert_date_time_format :: "database \<Rightarrow> py_error + database" where
  "convert_date_time_format db =
     (case punch db of
        None \<Rightarrow> Inr db
      | Some df \<Rightarrow>
          (case update_column (Text ''punch_date'') update_date_cell df of
             Inl e \<Rightarrow> Inl e
           | Inr df1 \<Rightarrow>
               (case update_column (Text ''punch_time'') update_time_cell df1 of
                  Inl e \<Rightarrow> Inl e
                | Inr df2 \<Rightarrow> Inr (db\<lparr>punch := Some df2\<rparr>))))"

subsection \<open>\<open>integrate_data\<close>\<close>

text \<open>
  The columns the query reads, as SQL values: NULL or a text (a number is read through
  its decimal text, which is how \<open>GROUP_CONCAT\<close> renders it). A table without one of
  the columns makes the query fail.
\<close>

record punch_row =
  p_account :: "string option"
  p_date :: "string option"
  p_time :: "string option"

record roster_row =
  r_account :: "string option"
  r_card_no :: "string option"
  r_name :: "string option"
  r_class :: "string option"

definition sql_text :: "cell \<Rightarrow> string option" where
  "sql_text c = (case c of NA \<Rightarrow> None | Num n \<Rightarrow> Some (str_of_int n) | Text s \<Rightarrow> Some s)"

definition punch_rows_of :: "frame \<Rightarrow> py_error + punch_row list" where
  "punch_rows_of df =
     (case (col_index (Text ''account'') (columns df), col_index (Text ''punch_date'') (columns df),
            col_index (Text ''punch_time'') (columns df)) of
        (Some a, Some d, Some t) \<Rightarrow>
          Inr (map (\<lambda>r. \<lparr>p_account = sql_text (cell_at a r), p_date = sql_text (cell_at d r),
                          p_time = sql_text (cell_at t r)\<rparr>) (rows df))
      | _ \<Rightarrow> Inl SqlError)"

definition roster_rows_of :: "frame \<Rightarrow> py_error + roster_row list" where
  "roster_rows_of df =
     (case (col_index (Text ''account'') (columns df), col_index (Text ''card_no'') (columns df),
            col_index (Text ''name'') (columns df), col_index (Text ''shift_class'') (columns df)) of
        (Some a, Some c, Some n, Some k) \<Rightarrow>
          Inr (map (\<lambda>r. \<lparr>r_account = sql_text (cell_at a r), r_card_no = sql_text (cell_at c r),
                          r_name = sql_text (cell_at n r), r_class = sql_text (cell_at k r)\<rparr>)
                 (rows df))
      | _ \<Rightarrow> Inl SqlError)"

text \<open>
  \<open>punch LEFT JOIN shift_class ON\<close> equal accounts: every punch with each roster row of
  its account, or once with no roster row; a NULL account matches nothing.
\<close>

definition left_join :: "punch_row list \<Rightarrow> roster_row list \<Rightarrow> (punch_row \<times> roster_row option) list" where
  "left_join ps rs =
     concat (map (\<lambda>p. case filter (\<lambda>r. p_account p \<noteq> None \<and> r_account r = p_account p) rs of
                         [] \<Rightarrow> [(p, None)]
                       | m # ms \<Rightarrow> map (\<lambda>r. (p, Some r)) (m # ms)) ps)"

text \<open>\<open>GROUP BY\<close> account, date, class. NULLs form one group, as in SQL.\<close>

definition roster_field :: "(roster_row \<Rightarrow> string option) \<Rightarrow> roster_row option \<Rightarrow> string option" where
  "roster_field f ro = (case ro of None \<Rightarrow> None | Some r \<Rightarrow> f r)"

definition join_key ::
  "punch_row \<times> roster_row option \<Rightarrow> string option \<times> string option \<times> string option" where
  "join_key j = (p_account (fst j), p_date (fst j), roster_field r_class (snd j))"

text \<open>
  The groups of the joined rows, each with its members in join order. The groups come
  in the order of their first member; SQL leaves both orders open.
\<close>

definition group_members ::
  "(punch_row \<times> roster_row option) list \<Rightarrow> (punch_row \<times> roster_row option) list list" where
  "group_members joined =
     map (\<lambda>k. filter (\<lambda>j. join_key j = k) joined) (rev (remdups (rev (map join_key joined))))"

text \<open>\<open>GROUP_CONCAT\<close>: the non-NULL values joined by commas, NULL when there is none.\<close>

fun join_comma :: "string list \<Rightarrow> string" where
  "join_comma [] = []"
| "join_comma [t] = t"
| "join_comma (t # u # ts) = t @ '','' @ join_comma (u # ts)"

definition group_concat :: "string option list \<Rightarrow> string option" where
  "group_concat vs =
     (case List.map_filter (\<lambda>v. v) vs of [] \<Rightarrow> None | t # ts \<Rightarrow> Some (join_comma (t # ts)))"

text \<open>
  A row of the query's result. The card number and the name are bare columns of an
  aggregate query; the model takes them from the first member of the group.
\<close>

record grouped_row =
  g_account :: "string option"
  g_card_no :: "string option"
  g_name :: "string option"
  g_class :: "string option"
  g_date :: "string option"
  g_times :: "string option"

definition group_row :: "(punch_row \<times> roster_row option) list \<Rightarrow> grouped_row" where
  "group_row members =
     \<lparr>g_account = (case members of [] \<Rightarrow> None | j # _ \<Rightarrow> p_account (fst j)),
      g_card_no = (case members of [] \<Rightarrow> None | j # _ \<Rightarrow> roster_field r_card_no (snd j)),
      g_name = (case members of [] \<Rightarrow> None | j # _ \<Rightarrow> roster_field r_name (snd j)),
      g_class = (case members of [] \<Rightarrow> None | j # _ \<Rightarrow> roster_field r_class (snd j)),
      g_date = (case members of [] \<Rightarrow> None | j # _ \<Rightarrow> p_date (fst j)),
      g_times = group_concat (map (\<lambda>j. p_time (fst j)) members)\<rparr>"

definition query_integrate :: "punch_row list \<Rightarrow> roster_row list \<Rightarrow> grouped_row list" where
  "query_integrate ps rs = map group_row (group_members (left_join ps rs))"

text \<open>
  The pivot: \<open>str.split(',', expand=True)\<close> gives as many columns as the longest split
  and pads the shorter rows with nulls (a null text gives a row of nulls);
  \<open>dropna(axis=1, how='all')\<close> removes the columns that are null in every row; the
  labels are \<open>punch_time1\<close>, \<open>punch_time2\<close>, ...
\<close>

definition split_times_of :: "grouped_row list \<Rightarrow> string list option list" where
  "split_times_of gs = map (\<lambda>g. map_option (split_on CHR '','') (g_times g)) gs"

definition max_splits_of :: "string list option list \<Rightarrow> nat" where
  "max_splits_of sts = foldr max (map (\<lambda>s. case s of None \<Rightarrow> 0 | Some ps \<Rightarrow> length ps) sts) 0"

definition pad_split :: "nat \<Rightarrow> string list option \<Rightarrow> string option list" where
  "pad_split n s =
     (case s of None \<Rightarrow> replicate n None
      | Some ps \<Rightarrow> map Some ps @ replicate (n - length ps) None)"

definition time_column_name :: "nat \<Rightarrow> string" where
  "time_column_name i = ''punch_time'' @ str_of_nat (i + 1)"

definition pivot_times :: "grouped_row list \<Rightarrow> ip_row list" where
  "pivot_times gs =
     (let split_times = split_times_of gs;
          max_splits = max_splits_of split_times;
          padded = map (pad_split max_splits) split_times;
          kept = filter (\<lambda>i. list_ex (\<lambda>r. r ! i \<noteq> None) padded) [0..<max_splits]
      in map (\<lambda>(g, r). \<lparr>ip_account = g_account g, ip_card_no = g_card_no g, ip_name = g_name g,
                          ip_class = g_class g, ip_date = g_date g,
                          ip_times = map (\<lambda>i. (time_column_name i, r ! i)) kept\<rparr>)
           (zip gs padded))"

text \<open>
  The time columns that the pivot keeps, by position. The \<open>CREATE TABLE\<close> statement of
  \<open>integrate_data\<close> lists them after a comma, so with none left its text is not SQL and
  the statement raises.
\<close>

definition pivot_kept :: "grouped_row list \<Rightarrow> nat list" where
  "pivot_kept gs =
     (let split_times = split_times_of gs;
          max_splits = max_splits_of split_times;
          padded = map (pad_split max_splits) split_times
      in filter (\<lambda>i. list_ex (\<lambda>r. r ! i \<noteq> None) padded) [0..<max_splits])"

definition integrate_data :: "database \<Rightarrow> py_error + (database \<times> ip_row list)" where
  "integrate_data db =
     (case (punch db, shift_class db) of
        (Some p, Some s) \<Rightarrow>
          (case (punch_rows_of p, roster_rows_of s) of
             (Inr ps, Inr rs) \<Rightarrow>
               (let integrated = pivot_times (query_integrate ps rs)
                in if pivot_kept (query_integrate ps rs) = [] then Inl SqlError
                   else Inr (db\<lparr>integrated_punch := Some integrated\<rparr>, integrated))
           | _ \<Rightarrow> Inl SqlError)
      | _ \<Rightarrow> Inl SqlError)"

subsection \<open>\<open>main\<close> of the ETL script\<close>

record config =
  db_path :: string
  file_path_1 :: string
  file_path_2 :: string

text \<open>The Excel files of the file system by path; \<open>None\<close> is a file that is absent.\<close>

type_synonym filesystem = "string \<rightharpoonup> workbook"

text \<open>
  \<open>df.to_sql('shift_class', conn, if_exists='append')\<close>: the table is created from the
  frame when it does not exist (which fails for a frame without columns; the labels
  of a frame that \<open>read_excel\<close> returns are distinct); otherwise the rows are inserted by
  column label, which fails for a label the table does not have. An integer that does
  not fit raises \<open>OverflowError\<close>.
\<close>

definition to_sql_append :: "frame \<Rightarrow> frame option \<Rightarrow> py_error + frame" where
  "to_sql_append df tbl =
     (case tbl of
        None \<Rightarrow>
          (if columns df = [] then Inl SqlError
           else if \<not> list_all (list_all sqlite_int_ok) (rows df) then Inl OverflowError
           else Inr df)
      | Some t \<Rightarrow>
          if \<not> list_all (\<lambda>c. c \<in> set (columns t)) (columns df) then Inl SqlError
          else if \<not> list_all (list_all sqlite_int_ok) (rows df) then Inl OverflowError
          else Inr (t\<lparr>rows := rows t @
                      map (\<lambda>r. map (\<lambda>c. case col_index c (columns df) of
                                           None \<Rightarrow> NA | Some i \<Rightarrow> cell_at i r) (columns t))
                        (rows df)\<rparr>))"

fun roster_loop :: "bool \<Rightarrow> workbook \<Rightarrow> database \<Rightarrow> nat \<Rightarrow> py_error + (database \<times> nat)" where
  "roster_loop file_exists [] db total_processed_rows = Inr (db, total_processed_rows)"
| "roster_loop file_exists (sheet # sheets) db total_processed_rows =
     (if \<not> file_exists then roster_loop file_exists sheets db total_processed_rows
      else (let df = read_excel 0 sheet
            in case to_sql_append df (shift_class db) of
                 Inl e \<Rightarrow> Inl e
               | Inr t \<Rightarrow>
                   roster_loop file_exists sheets (db\<lparr>shift_class := Some t\<rparr>)
                     (total_processed_rows + length (rows df))))"

text \<open>
  How a run ends without an exception: by the early \<open>return\<close> for a missing punch
  workbook, or at the end of \<open>main\<close> with the database it has built.
\<close>

datatype run_result = Terminated | Completed database

text \<open>
  \<open>main\<close>. The database file is deleted first, so the run starts from the empty
  database. \<open>pd.ExcelFile(path)\<close> raises \<open>FileNotFoundError\<close> for an absent file; the
  punch workbook is tested before it is opened, the roster workbook is opened before
  the test inside its loop.
\<close>

definition main :: "(string \<Rightarrow> bool) \<Rightarrow> filesystem \<Rightarrow> config \<Rightarrow> py_error + run_result" where
  "main numeric_text fs cfg =
     (case fs (file_path_1 cfg) of
        None \<Rightarrow> Inr Terminated
      | Some excel_data_1 \<Rightarrow>
          (case clean_and_store_excel numeric_text (fs (file_path_1 cfg) \<noteq> None) excel_data_1
                  empty_db of
             Inl e \<Rightarrow> Inl e
           | Inr (db1, total_processed_rows) \<Rightarrow>
               (case fs (file_path_2 cfg) of
                  None \<Rightarrow> Inl FileNotFoundError
                | Some excel_data_2 \<Rightarrow>
                    (case roster_loop (fs (file_path_2 cfg) \<noteq> None) excel_data_2 db1
                            total_processed_rows of
                       Inl e \<Rightarrow> Inl e
                     | Inr (db2, total_rows) \<Rightarrow>
                         (case convert_date_time_format db2 of
                            Inl e \<Rightarrow> Inl e
                          | Inr db3 \<Rightarrow>
                              (case integrate_data db3 of
                                 Inl e \<Rightarrow> Inl e
                               | Inr (db4, integrated) \<Rightarrow> Inr (Completed db4)))))))"

subsection \<open>Notions used to state the properties\<close>

text \<open>The time of day in seconds since midnight.\<close>

definition seconds_of_day :: "time_of_day \<Rightarrow> nat" where
  "seconds_of_day t = 3600 * hour t + 60 * minute t + second t"

text \<open>
  What a variant of the evaluator extracts from a date string: the month and the day,
  or nothing when the row is skipped. With it the two loop bodies are instances of
  one body, \<open>body_generic\<close>.
\<close>

definition month_day_slice :: "string \<Rightarrow> (string \<times> string) option" where
  "month_day_slice date = Some (slice 5 7 date, slice 8 10 date)"

definition month_day_parse :: "string \<Rightarrow> (string \<times> string) option" where
  "month_day_parse date_str =
     (case strptime_date date_str of
        Inl e \<Rightarrow> None
      | Inr date_obj \<Rightarrow> Some (fmt02 (d_month date_obj), fmt02 (d_day date_obj)))"

definition body_generic ::
  "(string \<Rightarrow> (string \<times> string) option) \<Rightarrow> rules \<Rightarrow> string list \<Rightarrow> ip_row \<Rightarrow> eval_state
     \<Rightarrow> py_error + eval_state" where
  "body_generic md rl time_columns row st =
     (case ip_date row of
        None \<Rightarrow> Inl TypeError
      | Some date \<Rightarrow>
          (case md date of
             None \<Rightarrow> Inr st
           | Some (month, day) \<Rightarrow> record_if_eligible rl time_columns row date month day st))"

definition row_key :: "ip_row \<Rightarrow> string option \<times> string option" where
  "row_key r = (ip_account r, ip_date r)"

definition emits :: "(string \<Rightarrow> (string \<times> string) option) \<Rightarrow> rules \<Rightarrow> string list \<Rightarrow> ip_row \<Rightarrow> bool" where
  "emits md rl time_columns r \<longleftrightarrow>
     (case ip_date r of None \<Rightarrow> False | Some date \<Rightarrow> md date \<noteq> None) \<and>
     check_night_meal r time_columns (night_meal_threshold rl) = Inr True"

definition record_for :: "(string \<Rightarrow> (string \<times> string) option) \<Rightarrow> ip_row \<Rightarrow> nm_record \<Rightarrow> bool" where
  "record_for md r e \<longleftrightarrow>
     (case ip_date r of
        None \<Rightarrow> False
      | Some date \<Rightarrow>
          md date = Some (rec_month e, rec_day e) \<and> rec_card_no e = ip_card_no r \<and>
          rec_account e = ip_account r \<and> rec_name e = ip_name r)"

definition first_occurrences :: "('r \<Rightarrow> bool) \<Rightarrow> ('r \<Rightarrow> 'k) \<Rightarrow> 'r list \<Rightarrow> 'r list" where
  "first_occurrences P key xs =
     map (nth xs)
       (filter (\<lambda>i. P (xs ! i) \<and> list_all (\<lambda>j. \<not> (P (xs ! j) \<and> key (xs ! j) = key (xs ! i))) [0..<i])
          [0..<length xs])"

fun keep_first :: "('r \<Rightarrow> bool) \<Rightarrow> ('r \<Rightarrow> 'k) \<Rightarrow> 'k set \<Rightarrow> 'r list \<Rightarrow> 'r list" where
  "keep_first P key seen [] = []"
| "keep_first P key seen (x # xs) =
     (if P x \<and> key x \<notin> seen then x # keep_first P key (insert (key x) seen) xs
      else keep_first P key seen xs)"

definition seen_of :: "eval_state \<Rightarrow> (string option \<times> string option) set" where
  "seen_of st = {(a, Some d) | a d. d \<in> dates_of (processed_dates st) a}"

text \<open>
  A canonical ISO date, written from the words of the specification: \<open>YYYY-MM-DD\<close> with
  four, two and two decimal digits that denote a date of the calendar (year 1 to 9999).
\<close>

definition canonical_iso_date :: "string \<Rightarrow> bool" where
  "canonical_iso_date s \<longleftrightarrow>
     length s = 10 \<and> s ! 4 = CHR ''-'' \<and> s ! 7 = CHR ''-'' \<and>
     list_all is_digit (slice 0 4 s) \<and> list_all is_digit (slice 5 7 s) \<and>
     list_all is_digit (slice 8 10 s) \<and>
     1 \<le> nat_of_digits (slice 0 4 s) \<and>
     1 \<le> nat_of_digits (slice 5 7 s) \<and> nat_of_digits (slice 5 7 s) \<le> 12 \<and>
     1 \<le> nat_of_digits (slice 8 10 s) \<and>
     nat_of_digits (slice 8 10 s) \<le> days_in_month (nat_of_digits (slice 0 4 s)) (nat_of_digits (slice 5 7 s))"

text \<open>The texts of a group of joined rows, in order: what \<open>GROUP_CONCAT\<close> joins.\<close>

definition group_times :: "(punch_row \<times> roster_row option) list \<Rightarrow> string list" where
  "group_times members = List.map_filter (\<lambda>j. p_time (fst j)) members"

subsection \<open>Example data\<close>

definition example_columns :: "string list" where
  "example_columns = [''punch_time1'', ''punch_time2'', ''punch_time3'']"

definition example_row :: "string \<Rightarrow> string \<Rightarrow> string option list \<Rightarrow> ip_row" where
  "example_row card_id date cells =
     \<lparr>ip_account = Some ''A1'', ip_card_no = Some card_id, ip_name = Some ''Wang'',
      ip_class = Some ''early'', ip_date = Some date, ip_times = zip example_columns cells\<rparr>"

definition example_rules :: rules where
  "example_rules = \<lparr>class_name = Some ''early'', night_meal_threshold = default_threshold\<rparr>"


definition example_table :: "ip_row list" where
  "example_table =
     [example_row ''C1'' ''2024-01-06'' [Some ''08:00:00'', Some ''21:00:00'', None],
      example_row ''C1'' ''2024-01-05'' [Some ''08:00:00'', Some ''22:30:00'', None],
      example_row ''C1'' ''2024-01-05'' [Some ''09:00:00'', Some ''17:00:00'', Some ''23:00:00'']]"

definition example_record :: nm_record where
  "example_record =
     \<lparr>rec_card_no = Some ''C1'', rec_account = Some ''A1'', rec_name = Some ''Wang'',
      rec_month = ''01'', rec_day = ''05''\<rparr>"


definition example_punches :: "punch_row list" where
  "example_punches =
     [\<lparr>p_account = Some ''A1'', p_date = Some ''2024-01-05'', p_time = Some ''08:00:00''\<rparr>,
      \<lparr>p_account = Some ''A2'', p_date = Some ''2024-01-05'', p_time = Some ''09:00:00''\<rparr>,
      \<lparr>p_account = Some ''A1'', p_date = Some ''2024-01-05'', p_time = Some ''22:30:00''\<rparr>]"

definition example_roster :: "roster_row list" where
  "example_roster =
     [\<lparr>r_account = Some ''A1'', r_card_no = Some ''C1'', r_name = Some ''Wang'',
       r_class = Some ''early''\<rparr>,
      \<lparr>r_account = Some ''A2'', r_card_no = Some ''C2'', r_name = Some ''Li'',
       r_class = Some ''early''\<rparr>]"

definition comma_punches :: "punch_row list" where
  "comma_punches =
     [\<lparr>p_account = Some ''A1'', p_date = Some ''2024-01-05'', p_time = Some ''08,00''\<rparr>]"

definition single_punch :: "punch_row list" where
  "single_punch =
     [\<lparr>p_account = Some ''A1'', p_date = Some ''2024-01-05'', p_time = Some ''22:30:00''\<rparr>]"

definition doubled_roster :: "roster_row list" where
  "doubled_roster =
     [\<lparr>r_account = Some ''A1'', r_card_no = Some ''C1'', r_name = Some ''Wang'',
       r_class = Some ''early''\<rparr>,
      \<lparr>r_account = Some ''A1'', r_card_no = Some ''C1'', r_name = Some ''Wang'',
       r_class = Some ''early''\<rparr>]"

definition example_numeric_text :: "string \<Rightarrow> bool" where
  "example_numeric_text s \<longleftrightarrow> s \<noteq> [] \<and> list_all is_digit s"

definition sheet_one :: sheet where
  "sheet_one =
     [[Text ''report'', NA, NA, NA], [NA, NA, NA, NA], [NA, NA, NA, NA], [NA, NA, NA, NA],
      [Text ''a'', Text ''b'', Text ''c'', Text ''d''],
      [Text ''seq'', Text ''account'', Text ''punch_date'', Text ''punch_time''],
      [Num 1, Text ''A1'', Text ''1130105'', Text ''0800''],
      [Num 2, Text ''A1'', Text ''1130105'', Text ''2230''],
      [Text ''total'', NA, NA, NA]]"

definition sheet_two :: sheet where
  "sheet_two =
     [[Text ''report'', NA, NA, NA], [NA, NA, NA, NA], [NA, NA, NA, NA], [NA, NA, NA, NA],
      [Text ''a'', Text ''b'', Text ''c'', Text ''d''],
      [Text ''seq'', Text ''account'', Text ''punch_date'', Text ''punch_time''],
      [Num 1, Text ''A2'', Text ''1130106'', Text ''0900'']]"

definition frame_one :: frame where
  "frame_one =
     \<lparr>columns = [Text ''seq'', Text ''account'', Text ''punch_date'', Text ''punch_time''],
      rows = [[Num 1, Text ''A1'', Text ''1130105'', Text ''0800''],
              [Num 2, Text ''A1'', Text ''1130105'', Text ''2230'']]\<rparr>"

definition frame_two :: frame where
  "frame_two =
     \<lparr>columns = [Text ''seq'', Text ''account'', Text ''punch_date'', Text ''punch_time''],
      rows = [[Num 1, Text ''A2'', Text ''1130106'', Text ''0900'']]\<rparr>"

definition example_config :: config where
  "example_config =
     \<lparr>db_path = ''./db/source.db'', file_path_1 = ''./data/punch.xlsx'',
      file_path_2 = ''./data/list.xlsx''\<rparr>"

definition punch_only_fs :: filesystem where
  "punch_only_fs = [''./data/punch.xlsx'' \<mapsto> [sheet_one, sheet_two]]"

definition roster_sheet :: sheet where
  "roster_sheet =
     [[Text ''account'', Text ''card_no'', Text ''name'', Text ''shift_class''],
      [Text ''A1'', Text ''C1'', Text ''Wang'', Text ''early'']]"

definition both_files_fs :: filesystem where
  "both_files_fs =
     [''./data/punch.xlsx'' \<mapsto> [sheet_one], ''./data/list.xlsx'' \<mapsto> [roster_sheet]]"

section \<open>Properties\<close>

subsection \<open>\<open>check_night_meal\<close>\<close>

lemma check_loop_skip_nulls:
  "\<forall>p\<in>set nulls. row_get row p = Inr None \<Longrightarrow>
   check_night_meal_loop row (nulls @ rest) thr = check_night_meal_loop row rest thr"
  by (induction nulls) auto

lemma check_night_meal_all_null:
  "\<forall>c\<in>set cols. row_get row c = Inr None \<Longrightarrow> check_night_meal row cols thr = Inr False"
  using check_loop_skip_nulls [of "rev cols" row "[]" thr]
  by (simp add: check_night_meal_def)

lemma check_night_meal_decomp:
  assumes "\<forall>p\<in>set post. row_get row p = Inr None" and "row_get row c = Inr (Some v)"
  shows "check_night_meal row (pre @ c # post) thr =
     (case strptime_time (colonize6 v) of Inl e \<Rightarrow> Inl e | Inr t \<Rightarrow> Inr (time_gt t thr))"
proof -
  have "check_night_meal row (pre @ c # post) thr =
        check_night_meal_loop row (rev post @ (c # rev pre)) thr"
    by (simp add: check_night_meal_def)
  also have "\<dots> = check_night_meal_loop row (c # rev pre) thr"
    using assms(1) by (intro check_loop_skip_nulls) simp
  finally show ?thesis using assms(2) by simp
qed

lemma strptime_time_range:
  "strptime_time s = Inr t \<Longrightarrow> hour t \<le> 23 \<and> minute t \<le> 59 \<and> second t \<le> 59"
  by (auto simp: strptime_time_def split: list.splits option.splits if_splits)

lemma time_gt_seconds:
  assumes "minute a \<le> 59" "second a \<le> 59" "minute b \<le> 59" "second b \<le> 59"
  shows "time_gt a b \<longleftrightarrow> seconds_of_day b < seconds_of_day a"
  using assms unfolding time_gt_def seconds_of_day_def by auto

lemma parse_time_default: "parse_time (Some ''22:00:00'') = Inr (Some default_threshold)"
  by (simp add: parse_time_def strptime_time_def field12_def is_digit_def less_eq_char_def
      nat_of_digits_def digit_val_def default_threshold_def)

subsection \<open>The evaluators\<close>

lemma body_slice_generic: "body_slice = body_generic month_day_slice"
  by (intro ext) (simp add: body_slice_def body_generic_def month_day_slice_def split: option.splits)

lemma body_parse_generic: "body_parse = body_generic month_day_parse"
  by (intro ext)
    (simp add: body_parse_def body_generic_def month_day_parse_def split: option.splits sum.splits)

lemma dates_of_touch: "dates_of (touch_account pd a) b = dates_of pd b"
  by (simp add: dates_of_def touch_account_def split: option.splits)

lemma dates_of_upd: "dates_of (pd(a \<mapsto> S)) b = (if b = a then S else dates_of pd b)"
  by (simp add: dates_of_def)

lemma body_generic_step:
  assumes "body_generic md rl cols row st = Inr st'"
  shows "if emits md rl cols row \<and> row_key row \<notin> seen_of st
         then (\<exists>e. record_for md row e \<and> night_meal_data st' = night_meal_data st @ [e]) \<and>
              seen_of st' = insert (row_key row) (seen_of st)
         else night_meal_data st' = night_meal_data st \<and> seen_of st' = seen_of st"
proof (cases "ip_date row")
  case None
  with assms show ?thesis by (simp add: body_generic_def)
next
  case (Some d)
  show ?thesis
  proof (cases "md d")
    case None
    with Some assms show ?thesis by (simp add: body_generic_def emits_def)
  next
    case (Some md')
    obtain m dd where md': "md' = (m, dd)" by (cases md')
    from assms \<open>ip_date row = Some d\<close> Some md'
    have rie: "record_if_eligible rl cols row d m dd st = Inr st'"
      by (simp add: body_generic_def)
    then obtain b where chk: "check_night_meal row cols (night_meal_threshold rl) = Inr b"
      by (auto simp: record_if_eligible_def Let_def split: sum.splits)
    have key_seen: "row_key row \<in> seen_of st \<longleftrightarrow> d \<in> dates_of (processed_dates st) (ip_account row)"
      using \<open>ip_date row = Some d\<close> by (auto simp: seen_of_def row_key_def)
    have em: "emits md rl cols row \<longleftrightarrow> b"
      using \<open>ip_date row = Some d\<close> Some chk by (simp add: emits_def)
    show ?thesis
    proof (cases "b \<and> d \<notin> dates_of (processed_dates st) (ip_account row)")
      case True
      with rie chk have st': "st' = \<lparr>night_meal_data = night_meal_data st @
                          [\<lparr>rec_card_no = ip_card_no row, rec_account = ip_account row,
                            rec_name = ip_name row, rec_month = m, rec_day = dd\<rparr>],
                       processed_dates = (touch_account (processed_dates st) (ip_account row))
                          (ip_account row \<mapsto> insert d (dates_of (processed_dates st) (ip_account row)))\<rparr>"
        by (simp add: record_if_eligible_def Let_def dates_of_touch)
      have "seen_of st' = insert (row_key row) (seen_of st)"
        unfolding st' seen_of_def row_key_def \<open>ip_date row = Some d\<close>
        by (auto simp: dates_of_upd dates_of_touch split: if_splits)
      moreover have "record_for md row \<lparr>rec_card_no = ip_card_no row, rec_account = ip_account row,
                            rec_name = ip_name row, rec_month = m, rec_day = dd\<rparr>"
        using \<open>ip_date row = Some d\<close> Some md' by (simp add: record_for_def)
      ultimately show ?thesis using True em key_seen st' by auto
    next
      case False
      with rie chk have st': "st' = \<lparr>night_meal_data = night_meal_data st,
            processed_dates = touch_account (processed_dates st) (ip_account row)\<rparr>"
        by (auto simp: record_if_eligible_def Let_def dates_of_touch)
      have "seen_of st' = seen_of st"
        unfolding st' seen_of_def by (simp add: dates_of_touch)
      then show ?thesis using False em key_seen st' by auto
    qed
  qed
qed

lemma for_rows_keep_first:
  "for_rows (body_generic md rl cols) data st = Inr st' \<Longrightarrow>
   \<exists>es. night_meal_data st' = night_meal_data st @ es \<and>
        list_all2 (record_for md) (keep_first (emits md rl cols) row_key (seen_of st) data) es"
proof (induction data arbitrary: st)
  case Nil
  then show ?case by simp
next
  case (Cons row data)
  from Cons.prems obtain st1 where s1: "body_generic md rl cols row st = Inr st1"
    and rest: "for_rows (body_generic md rl cols) data st1 = Inr st'"
    by (auto split: sum.splits)
  from Cons.IH [OF rest] obtain es where
    es: "night_meal_data st' = night_meal_data st1 @ es"
        "list_all2 (record_for md) (keep_first (emits md rl cols) row_key (seen_of st1) data) es"
    by blast
  show ?case
  proof (cases "emits md rl cols row \<and> row_key row \<notin> seen_of st")
    case True
    with body_generic_step [OF s1] obtain e where
      e: "record_for md row e" "night_meal_data st1 = night_meal_data st @ [e]"
         "seen_of st1 = insert (row_key row) (seen_of st)" by auto
    with es True show ?thesis by (intro exI [of _ "e # es"]) simp
  next
    case False
    with body_generic_step [OF s1] have
      "night_meal_data st1 = night_meal_data st" "seen_of st1 = seen_of st" by auto
    with es False show ?thesis by (intro exI [of _ es]) auto
  qed
qed

lemma keep_first_keys:
  "distinct (map key (keep_first P key seen xs)) \<and>
   key ` set (keep_first P key seen xs) \<inter> seen = {}"
proof (induction xs arbitrary: seen)
  case Nil
  then show ?case by simp
next
  case (Cons x xs)
  from Cons.IH [of "insert (key x) seen"] Cons.IH [of seen]
  show ?case by auto
qed

lemma keep_first_indices:
  "keep_first P key seen xs =
     map (nth xs)
       (filter (\<lambda>i. P (xs ! i) \<and> key (xs ! i) \<notin> seen \<and>
                    (\<forall>j<i. \<not> (P (xs ! j) \<and> key (xs ! j) = key (xs ! i))))
          [0..<length xs])"
proof (induction xs arbitrary: seen)
  case Nil
  then show ?case by simp
next
  case (Cons x xs)
  let ?Q = "\<lambda>i. P ((x # xs) ! i) \<and> key ((x # xs) ! i) \<notin> seen \<and>
                 (\<forall>j<i. \<not> (P ((x # xs) ! j) \<and> key ((x # xs) ! j) = key ((x # xs) ! i)))"
  let ?seen' = "if P x \<and> key x \<notin> seen then insert (key x) seen else seen"
  let ?R = "\<lambda>i. P (xs ! i) \<and> key (xs ! i) \<notin> ?seen' \<and>
                 (\<forall>j<i. \<not> (P (xs ! j) \<and> key (xs ! j) = key (xs ! i)))"
  have upt: "[0..<length (x # xs)] = 0 # map Suc [0..<length xs]"
    by (simp add: upt_conv_Cons map_Suc_upt del: upt_Suc)
  have all_Suc: "(\<forall>j<Suc i. T j) \<longleftrightarrow> T 0 \<and> (\<forall>j<i. T (Suc j))" for i T
    by (metis less_Suc_eq_0_disj)
  have shift: "?Q (Suc i) \<longleftrightarrow> ?R i" for i
    by (auto simp: all_Suc)
  have tail: "map (nth (x # xs)) (map Suc (filter (?Q \<circ> Suc) [0..<length xs])) =
              keep_first P key ?seen' xs"
  proof -
    have "filter (?Q \<circ> Suc) [0..<length xs] = filter ?R [0..<length xs]"
      by (rule filter_cong [OF refl]) (simp only: comp_def shift)
    then show ?thesis by (simp add: Cons.IH [of ?seen'] comp_def)
  qed
  have "map (nth (x # xs)) (filter ?Q [0..<length (x # xs)]) =
        (if ?Q 0 then [x] else []) @ map (nth (x # xs)) (map Suc (filter (?Q \<circ> Suc) [0..<length xs]))"
    unfolding upt by (simp add: filter_map)
  also have "\<dots> = (if P x \<and> key x \<notin> seen then [x] else []) @ keep_first P key ?seen' xs"
    unfolding tail by simp
  also have "\<dots> = keep_first P key seen (x # xs)" by simp
  finally show ?case by simp
qed

lemma keep_first_first_occurrences: "keep_first P key {} xs = first_occurrences P key xs"
proof -
  have "filter (\<lambda>i. P (xs ! i) \<and> key (xs ! i) \<notin> {} \<and>
                    (\<forall>j<i. \<not> (P (xs ! j) \<and> key (xs ! j) = key (xs ! i)))) [0..<length xs] =
        filter (\<lambda>i. P (xs ! i) \<and>
                    list_all (\<lambda>j. \<not> (P (xs ! j) \<and> key (xs ! j) = key (xs ! i))) [0..<i]) [0..<length xs]"
    by (rule filter_cong [OF refl]) (auto simp: list_all_iff)
  then show ?thesis
    unfolding keep_first_indices [of P key "{}" xs] first_occurrences_def by simp
qed

lemma seen_of_init: "seen_of init_state = {}"
  by (simp add: seen_of_def init_state_def dates_of_def)

lemma data_init: "night_meal_data init_state = []"
  by (simp add: init_state_def)

lemma for_rows_generic_result:
  assumes "for_rows (body_generic md rl cols) data init_state = Inr st"
  shows "list_all2 (record_for md) (first_occurrences (emits md rl cols) row_key data) (night_meal_data st) \<and>
         distinct (map row_key (first_occurrences (emits md rl cols) row_key data))"
proof -
  from for_rows_keep_first [OF assms] have
    "list_all2 (record_for md) (keep_first (emits md rl cols) row_key {} data) (night_meal_data st)"
    by (simp add: seen_of_init data_init)
  then show ?thesis
    using keep_first_keys [of row_key "emits md rl cols" "{}" data]
    by (simp add: keep_first_first_occurrences)
qed

lemma digit_char_val: "is_digit c \<Longrightarrow> digit_char (digit_val c) = c"
  by (simp add: is_digit_def digit_val_def digit_char_def less_eq_char_def)

lemma digit_val_lt: "is_digit c \<Longrightarrow> digit_val c < 10"
  by (auto simp: is_digit_def digit_val_def less_eq_char_def)

lemma str_of_nat_digit: "n < 10 \<Longrightarrow> str_of_nat n = [digit_char n]"
  by (subst str_of_nat.simps) simp

lemma str_of_nat_step: "10 \<le> n \<Longrightarrow> str_of_nat n = str_of_nat (n div 10) @ [digit_char (n mod 10)]"
  by (subst str_of_nat.simps) simp

lemma digit_val_zero:
  assumes "is_digit c" "digit_val c = 0"
  shows "c = CHR ''0''"
proof -
  have "digit_char (digit_val c) = c" using assms(1) by (rule digit_char_val)
  with assms(2) show ?thesis by (simp add: digit_char_def char_of_def bit_simps)
qed

lemma fmt02_two_digits:
  assumes "is_digit a" "is_digit b"
  shows "fmt02 (nat_of_digits [a, b]) = [a, b]"
proof -
  let ?x = "digit_val a" and ?y = "digit_val b"
  have lt: "?x < 10" "?y < 10" using assms by (simp_all add: digit_val_lt)
  have val: "nat_of_digits [a, b] = 10 * ?x + ?y" by (simp add: nat_of_digits_def)
  have "fmt02 (10 * ?x + ?y) = [a, b]"
  proof (cases "?x = 0")
    case True
    then have "a = CHR ''0''" using assms(1) by (simp add: digit_val_zero)
    with True lt show ?thesis
      by (simp add: fmt02_def digit_char_val [OF assms(2)])
  next
    case False
    then have ge: "10 \<le> 10 * ?x + ?y" by simp
    have dv: "(10 * ?x + ?y) div 10 = ?x" "(10 * ?x + ?y) mod 10 = ?y" using lt by simp_all
    have "str_of_nat (10 * ?x + ?y) = [digit_char ?x, digit_char ?y]"
      using str_of_nat_step [OF ge] lt by (simp add: dv str_of_nat_digit)
    with ge show ?thesis
      by (simp add: fmt02_def digit_char_val [OF assms(1)] digit_char_val [OF assms(2)])
  qed
  with val show ?thesis by simp
qed

lemma length10_elems:
  assumes "length s = 10"
  obtains c0 c1 c2 c3 c4 c5 c6 c7 c8 c9 where "s = [c0, c1, c2, c3, c4, c5, c6, c7, c8, c9]"
proof -
  from assms have "s = map (nth s) [0..<10]" by (metis map_nth)
  also have "[0..<10] = [0, 1, 2, 3, 4, 5, 6, 7, 8, 9::nat]" by (simp add: upt_rec)
  finally have "s = [s ! 0, s ! 1, s ! 2, s ! 3, s ! 4, s ! 5, s ! 6, s ! 7, s ! 8, s ! 9]"
    by simp
  then show ?thesis using that by blast
qed

lemma digit_not_sep: "is_digit c \<Longrightarrow> c \<noteq> CHR ''-'' \<and> c \<noteq> CHR '' ''"
  by (auto simp: is_digit_def less_eq_char_def)

lemma canonical_parse_eq_slice:
  assumes "canonical_iso_date s"
  shows "month_day_parse s = month_day_slice s"
proof -
  from assms have len: "length s = 10" by (simp add: canonical_iso_date_def)
  then obtain y1 y2 y3 y4 h1 m1 m2 h2 d1 d2 where
    s: "s = [y1, y2, y3, y4, h1, m1, m2, h2, d1, d2]" by (rule length10_elems)
  from assms have h: "h1 = CHR ''-''" "h2 = CHR ''-''"
    and dig: "is_digit y1" "is_digit y2" "is_digit y3" "is_digit y4"
             "is_digit m1" "is_digit m2" "is_digit d1" "is_digit d2"
    and rng: "1 \<le> nat_of_digits [y1, y2, y3, y4]" "1 \<le> nat_of_digits [m1, m2]"
             "nat_of_digits [m1, m2] \<le> 12" "1 \<le> nat_of_digits [d1, d2]"
             "nat_of_digits [d1, d2] \<le> days_in_month (nat_of_digits [y1, y2, y3, y4]) (nat_of_digits [m1, m2])"
    unfolding s canonical_iso_date_def by (simp_all add: slice_def)
  have sp: "split_on CHR ''-'' s = [[y1, y2, y3, y4], [m1, m2], [d1, d2]]"
    unfolding s h using dig by (simp add: digit_not_sep)
  have f_m: "field12 [m1, m2] = Some (nat_of_digits [m1, m2])" using dig by (simp add: field12_def)
  have f_d: "day_field [d1, d2] = Some (nat_of_digits [d1, d2])"
    using dig by (simp add: day_field_def field12_def digit_not_sep)
  have le31: "nat_of_digits [d1, d2] \<le> 31"
    using rng(5) by (simp add: days_in_month_def split: if_splits)
  have "strptime_date s = Inr \<lparr>d_year = nat_of_digits [y1, y2, y3, y4],
          d_month = nat_of_digits [m1, m2], d_day = nat_of_digits [d1, d2]\<rparr>"
    unfolding strptime_date_def sp using dig rng le31 f_m f_d by simp
  then show ?thesis
    unfolding month_day_parse_def month_day_slice_def
    using dig by (simp add: fmt02_two_digits) (simp add: s slice_def)
qed

lemma for_rows_cong:
  "(\<And>r st. r \<in> set data \<Longrightarrow> f r st = g r st) \<Longrightarrow> for_rows f data st = for_rows g data st"
  by (induction data arbitrary: st) (auto split: sum.splits)

lemmas eval_simps = strptime_time_def field12_def is_digit_def less_eq_char_def nat_of_digits_def
  digit_val_def colonize6_def slice_def row_get_def example_row_def example_columns_def

lemma example_slice:
  "process_night_meal_data_slice example_table ''early'' example_rules example_columns =
     Inr [example_record]"
  by code_simp

lemma example_parse:
  "process_night_meal_data_parse example_table ''early'' example_rules example_columns =
     Inr [example_record]"
  by code_simp

subsection \<open>The claims about the evaluators\<close>

text \<open>
  C1. The eligibility test is strict. Let the last punch of the day be the cell \<open>s\<close> of
  column \<open>c\<close> (every later time column of the row is null), and let it read as the time
  \<open>t\<close>. Then for every row and every threshold: a last punch equal to the threshold is
  not eligible, a last punch after it is; for the threshold 22:00:00 of the rules, the
  time 22:00:00 gives \<open>False\<close> and every time from 22:00:01 on gives \<open>True\<close>.
\<close>

theorem check_night_meal_strict:
  assumes "time_columns = pre @ c # post"
    and "\<forall>p\<in>set post. row_get row p = Inr None"
    and "row_get row c = Inr (Some s)"
    and "strptime_time (colonize6 s) = Inr t"
  shows "(t = thr \<longrightarrow> check_night_meal row time_columns thr = Inr False) \<and>
         (time_gt t thr \<longrightarrow> check_night_meal row time_columns thr = Inr True) \<and>
         (seconds_of_day t = 79200 \<longrightarrow>
            check_night_meal row time_columns default_threshold = Inr False) \<and>
         (79201 \<le> seconds_of_day t \<longrightarrow>
            check_night_meal row time_columns default_threshold = Inr True)"
proof -
  have res: "check_night_meal row time_columns th = Inr (time_gt t th)" for th
    using check_night_meal_decomp [OF assms(2,3), of pre th] assms(1,4) by simp
  have rng: "minute t \<le> 59" "second t \<le> 59"
    using strptime_time_range [OF assms(4)] by simp_all
  have sec: "time_gt t default_threshold \<longleftrightarrow> 79200 < seconds_of_day t"
    using time_gt_seconds [of t default_threshold] rng
    by (simp add: default_threshold_def seconds_of_day_def)
  have irrefl: "\<not> time_gt thr thr" by (simp add: time_gt_def)
  show ?thesis using res sec irrefl by auto
qed

theorem check_night_meal_strict_witness:
  "check_night_meal (example_row ''C1'' ''2024-01-05'' [Some ''08:00:00'', Some ''22:00:00'', None])
     example_columns default_threshold = Inr False \<and>
   check_night_meal (example_row ''C1'' ''2024-01-05'' [Some ''08:00:00'', Some ''220001'', None])
     example_columns default_threshold = Inr True"
proof -
  let ?rowA = "example_row ''C1'' ''2024-01-05'' [Some ''08:00:00'', Some ''22:00:00'', None]"
  let ?rowB = "example_row ''C1'' ''2024-01-05'' [Some ''08:00:00'', Some ''220001'', None]"
  have cols: "example_columns = [''punch_time1''] @ ''punch_time2'' # [''punch_time3'']"
    by (simp add: example_columns_def)
  have nullA: "\<forall>p\<in>set [''punch_time3'']. row_get ?rowA p = Inr None"
    by (simp add: eval_simps)
  have nullB: "\<forall>p\<in>set [''punch_time3'']. row_get ?rowB p = Inr None"
    by (simp add: eval_simps)
  have lastA: "row_get ?rowA ''punch_time2'' = Inr (Some ''22:00:00'')"
    by (simp add: eval_simps)
  have lastB: "row_get ?rowB ''punch_time2'' = Inr (Some ''220001'')"
    by (simp add: eval_simps)
  have parseA: "strptime_time (colonize6 ''22:00:00'') = Inr default_threshold"
    by (simp add: eval_simps default_threshold_def)
  have parseB: "strptime_time (colonize6 ''220001'') = Inr \<lparr>hour = 22, minute = 0, second = 1\<rparr>"
    by (simp add: eval_simps)
  from check_night_meal_strict [OF cols nullA lastA parseA, of default_threshold]
  have A: "check_night_meal ?rowA example_columns default_threshold = Inr False" by simp
  from check_night_meal_strict [OF cols nullB lastB parseB, of default_threshold]
  have B: "check_night_meal ?rowB example_columns default_threshold = Inr True"
    by (simp add: seconds_of_day_def)
  from A B show ?thesis by simp
qed

text \<open>
  C2. \<open>check_night_meal\<close> scans the time columns from the last to the first and decides
  on the first cell that is not null: the columns before it are not looked at, and the
  answer is the comparison of that cell's time with the threshold (or the error of
  reading it). When every time column of the row is null, the answer is \<open>False\<close>.
\<close>

theorem check_night_meal_last_non_null:
  "((\<forall>c\<in>set time_columns. row_get row c = Inr None) \<longrightarrow>
      check_night_meal row time_columns thr = Inr False) \<and>
   (\<forall>pre c post v.
      time_columns = pre @ c # post \<and> (\<forall>p\<in>set post. row_get row p = Inr None) \<and>
      row_get row c = Inr (Some v) \<longrightarrow>
      check_night_meal row time_columns thr =
        (case strptime_time (colonize6 v) of
           Inl e \<Rightarrow> Inl e
         | Inr t \<Rightarrow> Inr (time_gt t thr)))"
  using check_night_meal_all_null [of time_columns row thr]
  by (auto simp: check_night_meal_decomp)

theorem check_night_meal_last_non_null_witness:
  "check_night_meal (example_row ''C1'' ''2024-01-05'' [None, None, None])
     example_columns default_threshold = Inr False \<and>
   check_night_meal (example_row ''C1'' ''2024-01-05'' [Some ''23:10:00'', Some ''08:00:00'', None])
     example_columns default_threshold = Inr False \<and>
   check_night_meal (example_row ''C1'' ''2024-01-05'' [Some ''08:00:00'', Some ''23:10:00'', None])
     example_columns default_threshold = Inr True"
proof -
  let ?r0 = "example_row ''C1'' ''2024-01-05'' [None, None, None]"
  let ?r1 = "example_row ''C1'' ''2024-01-05'' [Some ''23:10:00'', Some ''08:00:00'', None]"
  let ?r2 = "example_row ''C1'' ''2024-01-05'' [Some ''08:00:00'', Some ''23:10:00'', None]"
  have cols: "example_columns = [''punch_time1''] @ ''punch_time2'' # [''punch_time3'']"
    by (simp add: example_columns_def)
  have n0: "\<forall>c\<in>set example_columns. row_get ?r0 c = Inr None" by (simp add: eval_simps)
  have n1: "\<forall>p\<in>set [''punch_time3'']. row_get ?r1 p = Inr None" by (simp add: eval_simps)
  have n2: "\<forall>p\<in>set [''punch_time3'']. row_get ?r2 p = Inr None" by (simp add: eval_simps)
  have l1: "row_get ?r1 ''punch_time2'' = Inr (Some ''08:00:00'')" by (simp add: eval_simps)
  have l2: "row_get ?r2 ''punch_time2'' = Inr (Some ''23:10:00'')" by (simp add: eval_simps)
  have A: "check_night_meal ?r0 example_columns default_threshold = Inr False"
    using check_night_meal_last_non_null [of example_columns ?r0 default_threshold] n0 by blast
  have "check_night_meal ?r1 example_columns default_threshold =
        (case strptime_time (colonize6 ''08:00:00'') of
           Inl e \<Rightarrow> Inl e | Inr t \<Rightarrow> Inr (time_gt t default_threshold))"
    using check_night_meal_last_non_null [of example_columns ?r1 default_threshold] cols n1 l1
    by blast
  then have B: "check_night_meal ?r1 example_columns default_threshold = Inr False"
    by (simp add: eval_simps time_gt_def default_threshold_def)
  have "check_night_meal ?r2 example_columns default_threshold =
        (case strptime_time (colonize6 ''23:10:00'') of
           Inl e \<Rightarrow> Inl e | Inr t \<Rightarrow> Inr (time_gt t default_threshold))"
    using check_night_meal_last_non_null [of example_columns ?r2 default_threshold] cols n2 l2
    by blast
  then have C: "check_night_meal ?r2 example_columns default_threshold = Inr True"
    by (simp add: eval_simps time_gt_def default_threshold_def)
  from A B C show ?thesis by simp
qed

text \<open>
  C3. In either variant of the evaluator, the output corresponds one to one and in
  order to the rows of the traversal that are eligible and are the first eligible row
  of their (account, date) pair; these rows have pairwise distinct (account, date)
  pairs. So there is at most one record per pair, and the first one encountered is kept.
\<close>

theorem one_record_per_account_date:
  "(process_night_meal_data_slice table cname rl time_columns = Inr out \<longrightarrow>
      (let kept = first_occurrences (emits month_day_slice rl time_columns) row_key
                    (select_class_rows cname table)
       in list_all2 (record_for month_day_slice) kept out \<and> distinct (map row_key kept))) \<and>
   (process_night_meal_data_parse table cname rl time_columns = Inr out' \<longrightarrow>
      (let kept = first_occurrences (emits month_day_parse rl time_columns) row_key
                    (select_class_rows cname table)
       in list_all2 (record_for month_day_parse) kept out' \<and> distinct (map row_key kept)))"
proof (intro conjI impI)
  assume "process_night_meal_data_slice table cname rl time_columns = Inr out"
  then obtain st where
    "for_rows (body_generic month_day_slice rl time_columns) (select_class_rows cname table) init_state = Inr st"
    and "out = night_meal_data st"
    by (auto simp: process_night_meal_data_slice_def body_slice_generic split: sum.splits)
  then show "let kept = first_occurrences (emits month_day_slice rl time_columns) row_key
                    (select_class_rows cname table)
       in list_all2 (record_for month_day_slice) kept out \<and> distinct (map row_key kept)"
    using for_rows_generic_result by (simp add: Let_def)
next
  assume "process_night_meal_data_parse table cname rl time_columns = Inr out'"
  then obtain st where
    "for_rows (body_generic month_day_parse rl time_columns) (select_class_rows cname table) init_state = Inr st"
    and "out' = night_meal_data st"
    by (auto simp: process_night_meal_data_parse_def body_parse_generic split: sum.splits)
  then show "let kept = first_occurrences (emits month_day_parse rl time_columns) row_key
                    (select_class_rows cname table)
       in list_all2 (record_for month_day_parse) kept out' \<and> distinct (map row_key kept)"
    using for_rows_generic_result by (simp add: Let_def)
qed

theorem one_record_per_account_date_witness:
  "process_night_meal_data_slice example_table ''early'' example_rules example_columns =
     Inr [example_record] \<and>
   process_night_meal_data_parse example_table ''early'' example_rules example_columns =
     Inr [example_record] \<and>
   (let kept = first_occurrences (emits month_day_slice example_rules example_columns) row_key
                 (select_class_rows ''early'' example_table)
    in list_all2 (record_for month_day_slice) kept [example_record] \<and>
       distinct (map row_key kept)) \<and>
   (let kept = first_occurrences (emits month_day_parse example_rules example_columns) row_key
                 (select_class_rows ''early'' example_table)
    in list_all2 (record_for month_day_parse) kept [example_record] \<and>
       distinct (map row_key kept))"
  using one_record_per_account_date [of example_table "''early''" example_rules example_columns
      "[example_record]" "[example_record]"]
    example_slice example_parse
  by simp

text \<open>
  C10. When every date of \<open>integrated_punch\<close> is a canonical ISO date, the variant that
  parses the date and the variant that slices it return the same result for the same
  class name, rules and time columns.
\<close>

theorem evaluator_variants_agree:
  assumes "\<forall>r\<in>set table. \<exists>d. ip_date r = Some d \<and> canonical_iso_date d"
  shows "process_night_meal_data_parse table cname rl time_columns =
         process_night_meal_data_slice table cname rl time_columns"
proof -
  have "body_parse rl time_columns r st = body_slice rl time_columns r st"
    if "r \<in> set (select_class_rows cname table)" for r st
  proof -
    from that have "r \<in> set table" by (simp add: select_class_rows_def)
    with assms obtain d where "ip_date r = Some d" "canonical_iso_date d" by blast
    then show ?thesis
      using canonical_parse_eq_slice [of d]
      by (simp add: body_parse_generic body_slice_generic body_generic_def)
  qed
  then have "for_rows (body_parse rl time_columns) (select_class_rows cname table) init_state =
             for_rows (body_slice rl time_columns) (select_class_rows cname table) init_state"
    by (rule for_rows_cong)
  then show ?thesis
    by (simp add: process_night_meal_data_parse_def process_night_meal_data_slice_def)
qed

theorem evaluator_variants_agree_witness:
  "process_night_meal_data_parse example_table ''early'' example_rules example_columns =
   process_night_meal_data_slice example_table ''early'' example_rules example_columns \<and>
   process_night_meal_data_slice example_table ''early'' example_rules example_columns =
     Inr [example_record]"
proof -
  have canon: "\<forall>r\<in>set example_table. \<exists>d. ip_date r = Some d \<and> canonical_iso_date d"
    by (simp add: example_table_def example_row_def canonical_iso_date_def slice_def
        is_digit_def less_eq_char_def nat_of_digits_def digit_val_def days_in_month_def)
  from evaluator_variants_agree [OF canon] example_slice show ?thesis by simp
qed

text \<open>
  The hypothesis of C10 is needed: on a date that \<open>strptime\<close> accepts but that is not
  of the fixed shape the two variants extract different strings, and a year 0000 is
  skipped by the parsing variant only.
\<close>

lemma variants_differ_on_short_date:
  "month_day_parse ''2024-1-5'' = Some (''01'', ''05'') \<and>
   month_day_slice ''2024-1-5'' = Some (''1-'', '''')"
  by code_simp

lemma variants_differ_on_year_zero:
  "month_day_parse ''0000-01-05'' = None \<and>
   month_day_slice ''0000-01-05'' = Some (''01'', ''05'')"
  by code_simp

subsection \<open>\<open>convert_date_time_format\<close>\<close>

lemma digit_not_space_sign:
  "is_digit c \<Longrightarrow> \<not> sqlite_isspace c \<and> c \<noteq> CHR ''-'' \<and> c \<noteq> CHR ''+''"
  by (auto simp: is_digit_def sqlite_isspace_def less_eq_char_def)

lemma sqlite_cast_three_digits:
  assumes "is_digit a" "is_digit b" "is_digit c"
  shows "sqlite_cast_integer [a, b, c] = int (nat_of_digits [a, b, c])"
  using assms digit_not_space_sign [of a]
  by (simp add: sqlite_cast_integer_def)

lemma sql_chars_no_nul: "CHR 0x00 \<notin> set (sql_chars s)"
  by (auto simp: sql_chars_def dest: set_takeWhileD)

lemma sql_chars_id: "CHR 0x00 \<notin> set s \<Longrightarrow> sql_chars s = s"
  by (auto simp: sql_chars_def takeWhile_eq_all_conv)

lemma substr_no_nul: "CHR 0x00 \<notin> set (substr s start n)"
  using sql_chars_no_nul [of s]
  by (auto simp: substr_def dest!: in_set_takeD in_set_dropD)

lemma digit_not_nul: "is_digit c \<Longrightarrow> c \<noteq> CHR 0x00"
  by (auto simp: is_digit_def less_eq_char_def)

lemma convert_date_value_compact:
  assumes "is_digit a" "is_digit b" "is_digit c" "length mm = 2" "length dd = 2"
    and "CHR 0x00 \<notin> set (mm @ dd)"
  shows "convert_date_value ([a, b, c] @ mm @ dd) =
         str_of_nat (nat_of_digits [a, b, c] + 1911) @ ''-'' @ mm @ ''-'' @ dd"
proof -
  have "CHR 0x00 \<notin> set ([a, b, c] @ mm @ dd)"
    using assms digit_not_nul [of a] digit_not_nul [of b] digit_not_nul [of c] by auto
  then have chars: "sql_chars ([a, b, c] @ mm @ dd) = [a, b, c] @ mm @ dd"
    by (rule sql_chars_id)
  have len: "sql_length ([a, b, c] @ mm @ dd) = 7"
    unfolding sql_length_def chars using assms(4,5) by simp
  have cut: "substr ([a, b, c] @ mm @ dd) 1 3 = [a, b, c]"
    "substr ([a, b, c] @ mm @ dd) 4 2 = mm" "substr ([a, b, c] @ mm @ dd) 6 2 = dd"
    unfolding substr_def chars using assms(4,5) by simp_all
  have year: "str_of_int (sqlite_cast_integer [a, b, c] + 1911) =
              str_of_nat (nat_of_digits [a, b, c] + 1911)"
    using assms(1-3) by (simp add: sqlite_cast_three_digits str_of_int_def nat_add_distrib)
  show ?thesis
    unfolding convert_date_value_def len cut year by simp
qed

lemma convert_value_unchanged:
  assumes "CHR 0x00 \<notin> set d"
  shows "length d \<noteq> 7 \<Longrightarrow> convert_date_value d = d"
    and "length d \<noteq> 4 \<Longrightarrow> convert_time_value d = d"
  using sql_chars_id [OF assms]
  by (simp_all add: convert_date_value_def convert_time_value_def sql_length_def)

text \<open>
  C4, as amended. A stored date of the form \<open>YYYMMDD\<close> (seven characters, the first
  three of them decimal digits, none of them NUL) becomes the year plus 1911, a hyphen,
  the fourth and fifth character, a hyphen, and the last two characters; a text
  without a NUL character whose length is not 7 is left as it is.
\<close>

theorem convert_date_compact_roc:
  "(is_digit a \<and> is_digit b \<and> is_digit c \<and> length mm = 2 \<and> length dd = 2 \<and>
    CHR 0x00 \<notin> set (mm @ dd) \<longrightarrow>
      update_date_cell (Text ([a, b, c] @ mm @ dd)) =
        Text (str_of_nat (nat_of_digits [a, b, c] + 1911) @ ''-'' @ mm @ ''-'' @ dd)) \<and>
   (CHR 0x00 \<notin> set d \<and> length d \<noteq> 7 \<longrightarrow> update_date_cell (Text d) = Text d)"
proof (intro conjI impI)
  assume "is_digit a \<and> is_digit b \<and> is_digit c \<and> length mm = 2 \<and> length dd = 2 \<and>
    CHR 0x00 \<notin> set (mm @ dd)"
  then show "update_date_cell (Text ([a, b, c] @ mm @ dd)) =
        Text (str_of_nat (nat_of_digits [a, b, c] + 1911) @ ''-'' @ mm @ ''-'' @ dd)"
    using convert_date_value_compact [of a b c mm dd] by (simp add: update_date_cell_def)
next
  assume "CHR 0x00 \<notin> set d \<and> length d \<noteq> 7"
  then show "update_date_cell (Text d) = Text d"
    by (simp add: update_date_cell_def convert_value_unchanged)
qed

theorem convert_date_compact_roc_witness:
  "update_date_cell (Text ''1130520'') = Text ''2024-05-20'' \<and>
   update_date_cell (Text ''2024-05-20'') = Text ''2024-05-20''"
proof -
  have dig: "is_digit CHR ''1'' \<and> is_digit CHR ''1'' \<and> is_digit CHR ''3'' \<and>
             length ''05'' = 2 \<and> length ''20'' = 2 \<and> CHR 0x00 \<notin> set (''05'' @ ''20'')"
    by (simp add: is_digit_def less_eq_char_def)
  have other: "CHR 0x00 \<notin> set ''2024-05-20'' \<and> length ''2024-05-20'' \<noteq> 7"
    by simp
  have year: "str_of_nat (nat_of_digits ''113'' + 1911) = ''2024''"
    by code_simp
  have "update_date_cell (Text (''113'' @ ''05'' @ ''20'')) =
        Text (str_of_nat (nat_of_digits ''113'' + 1911) @ ''-'' @ ''05'' @ ''-'' @ ''20'')"
    using convert_date_compact_roc [of "CHR ''1''" "CHR ''1''" "CHR ''3''" "''05''" "''20''" "[]"]
      dig by blast
  then have A: "update_date_cell (Text ''1130520'') = Text ''2024-05-20''"
    by (simp add: year)
  have B: "update_date_cell (Text ''2024-05-20'') = Text ''2024-05-20''"
    using convert_date_compact_roc [of "CHR ''1''" "CHR ''1''" "CHR ''3''" "''05''" "''20''"
        "''2024-05-20''"] other
    by blast
  from A B show ?thesis by simp
qed

text \<open>
  The claim as stated fails: the dashed form \<open>113-05-20\<close> has nine characters and is left
  as it is, and a dashed date with a one-digit year is cut through its hyphens.
\<close>

theorem convert_date_dashed_roc_counterexample:
  "update_date_cell (Text ''113-05-20'') = Text ''113-05-20'' \<and>
   update_date_cell (Text ''113-05-20'') \<noteq> Text ''2024-05-20'' \<and>
   update_date_cell (Text ''1-05-20'') = Text ''1912-5--20''"
  by code_simp

text \<open>
  C5, as amended. A stored time of exactly four characters \<open>c1 c2 c3 c4\<close>, none of them
  NUL (so four digits \<open>HHMM\<close>), becomes \<open>c1 c2 : c3 c4 :00\<close>; a text without a NUL
  character of any other length is left as it is.
\<close>

theorem convert_time_four_chars:
  "(CHR 0x00 \<notin> set [h1, h2, m1, m2] \<longrightarrow>
      update_time_cell (Text [h1, h2, m1, m2]) =
        Text [h1, h2, CHR '':'', m1, m2, CHR '':'', CHR ''0'', CHR ''0'']) \<and>
   (CHR 0x00 \<notin> set t \<and> length t \<noteq> 4 \<longrightarrow> update_time_cell (Text t) = Text t)"
proof (intro conjI impI)
  assume "CHR 0x00 \<notin> set [h1, h2, m1, m2]"
  then have chars: "sql_chars [h1, h2, m1, m2] = [h1, h2, m1, m2]" by (rule sql_chars_id)
  have "convert_time_value [h1, h2, m1, m2] =
        [h1, h2, CHR '':'', m1, m2, CHR '':'', CHR ''0'', CHR ''0'']"
    unfolding convert_time_value_def sql_length_def substr_def chars by simp
  then show "update_time_cell (Text [h1, h2, m1, m2]) =
        Text [h1, h2, CHR '':'', m1, m2, CHR '':'', CHR ''0'', CHR ''0'']"
    by (simp add: update_time_cell_def)
next
  assume "CHR 0x00 \<notin> set t \<and> length t \<noteq> 4"
  then show "update_time_cell (Text t) = Text t"
    by (simp add: update_time_cell_def convert_value_unchanged)
qed

theorem convert_time_four_chars_witness:
  "update_time_cell (Text ''0830'') = Text ''08:30:00'' \<and>
   update_time_cell (Text ''223000'') = Text ''223000'' \<and>
   update_time_cell (Text ''08:30:00'') = Text ''08:30:00''"
proof -
  have four: "CHR 0x00 \<notin> set [CHR ''0'', CHR ''8'', CHR ''3'', CHR ''0'']" by simp
  have six: "CHR 0x00 \<notin> set ''223000'' \<and> length ''223000'' \<noteq> 4" by simp
  have eight: "CHR 0x00 \<notin> set ''08:30:00'' \<and> length ''08:30:00'' \<noteq> 4" by simp
  have A: "update_time_cell (Text ''0830'') = Text ''08:30:00''"
    using convert_time_four_chars [of "CHR ''0''" "CHR ''8''" "CHR ''3''" "CHR ''0''" "[]"] four
    by blast
  have B: "update_time_cell (Text ''223000'') = Text ''223000''"
    using convert_time_four_chars [of "CHR ''0''" "CHR ''8''" "CHR ''3''" "CHR ''0''" "''223000''"]
      six
    by blast
  have C: "update_time_cell (Text ''08:30:00'') = Text ''08:30:00''"
    using convert_time_four_chars [of "CHR ''0''" "CHR ''8''" "CHR ''3''" "CHR ''0''" "''08:30:00''"]
      eight
    by blast
  from A B C show ?thesis by simp
qed

text \<open>
  The claim as stated fails: six digits are not rewritten by the pass (they reach
  \<open>check_night_meal\<close> as they are), and a text of four characters is rewritten also
  when it holds a colon.
\<close>

theorem convert_time_claim_counterexample:
  "update_time_cell (Text ''223000'') = Text ''223000'' \<and>
   update_time_cell (Text ''223000'') \<noteq> Text ''22:30:00'' \<and>
   update_time_cell (Text ''8:30'') = Text ''8::30:00''"
  by code_simp

text \<open>
  A text that holds a NUL character is measured and cut before it: nine characters
  with seven before the NUL are rewritten as a date, seven with three before it are
  not; six characters with four before the NUL are rewritten as a time, four with two
  before it are not.
\<close>

lemma texts_with_nul:
  "update_date_cell (Text (''1130520'' @ [CHR 0x00, CHR ''x''])) = Text ''2024-05-20'' \<and>
   update_date_cell (Text (''113'' @ [CHR 0x00] @ ''520'')) = Text (''113'' @ [CHR 0x00] @ ''520'') \<and>
   update_time_cell (Text (''abcd'' @ [CHR 0x00, CHR ''e''])) = Text ''ab:cd:00'' \<and>
   update_time_cell (Text (''ab'' @ [CHR 0x00, CHR ''c''])) = Text (''ab'' @ [CHR 0x00, CHR ''c''])"
  by code_simp

lemma sql_length_convert_time_value:
  assumes "sql_length t = 4"
  shows "sql_length (convert_time_value t) = 8"
proof -
  let ?r = "substr t 1 2 @ '':'' @ substr t 3 2 @ '':00''"
  have "CHR 0x00 \<notin> set ?r"
    using substr_no_nul [of t 1 2] substr_no_nul [of t 3 2] by simp
  then have "sql_chars ?r = ?r" by (rule sql_chars_id)
  moreover have "length ?r = 8"
    using assms by (simp add: substr_def sql_length_def)
  moreover have "convert_time_value t = ?r"
    using assms by (simp add: convert_time_value_def)
  ultimately show ?thesis by (simp add: sql_length_def)
qed

lemma convert_time_value_twice: "convert_time_value (convert_time_value x) = convert_time_value x"
proof (cases "sql_length x = 4")
  case True
  then have "sql_length (convert_time_value x) \<noteq> 4" by (simp add: sql_length_convert_time_value)
  then show ?thesis by (simp add: convert_time_value_def [of "convert_time_value x"])
next
  case False
  then show ?thesis by (simp add: convert_time_value_def)
qed

text \<open>
  C6. The time normalisation is idempotent, on a text and on a stored cell.
\<close>

theorem convert_time_idempotent:
  "convert_time_value (convert_time_value x) = convert_time_value x \<and>
   update_time_cell (update_time_cell c) = update_time_cell c"
  by (cases c) (simp_all add: update_time_cell_def convert_time_value_twice)

subsection \<open>\<open>integrate_data\<close>\<close>

lemma split_on_no_sep: "c \<notin> set t \<Longrightarrow> split_on c t = [t]"
  by (induction t) auto

lemma split_on_append_sep:
  "c \<notin> set t \<Longrightarrow> split_on c (t @ c # rest) = t # split_on c rest"
  by (induction t) auto

lemma split_join_comma:
  "ts \<noteq> [] \<Longrightarrow> \<forall>t\<in>set ts. CHR '','' \<notin> set t \<Longrightarrow> split_on CHR '','' (join_comma ts) = ts"
proof (induction ts rule: join_comma.induct)
  case 1
  then show ?case by simp
next
  case (2 t)
  then show ?case by (simp add: split_on_no_sep)
next
  case (3 t u ts)
  then show ?case using split_on_append_sep [of "CHR '',''" t "join_comma (u # ts)"] by simp
qed

lemma map_filter_Some: "List.map_filter (\<lambda>v. v) (map Some ts) = ts"
  by (induction ts) (simp_all add: List.map_filter_simps)

lemma group_concat_texts: "ts \<noteq> [] \<Longrightarrow> group_concat (map Some ts) = Some (join_comma ts)"
  by (cases ts) (simp_all add: group_concat_def map_filter_Some)

lemma left_join_punch:
  assumes "j \<in> set (left_join ps rs)"
  shows "fst j \<in> set ps"
proof -
  from assms obtain p where p: "p \<in> set ps"
    and j: "j \<in> set (case filter (\<lambda>r. p_account p \<noteq> None \<and> r_account r = p_account p) rs of
                         [] \<Rightarrow> [(p, None)]
                       | m # ms \<Rightarrow> map (\<lambda>r. (p, Some r)) (m # ms))"
    by (auto simp: left_join_def)
  from j have "fst j = p"
    by (cases "filter (\<lambda>r. p_account p \<noteq> None \<and> r_account r = p_account p) rs") auto
  with p show ?thesis by simp
qed

lemma group_members_nonempty:
  assumes "m \<in> set (group_members joined)"
  shows "m \<noteq> [] \<and> set m \<subseteq> set joined"
proof -
  from assms obtain k where k: "k \<in> set (map join_key joined)" and m: "m = filter (\<lambda>j. join_key j = k) joined"
    by (auto simp: group_members_def)
  from k obtain j where "j \<in> set joined" "join_key j = k" by auto
  then have "j \<in> set m" using m by simp
  then have "m \<noteq> []" by auto
  moreover have "set m \<subseteq> set joined" using m by auto
  ultimately show ?thesis by simp
qed

lemma group_times_texts:
  assumes "\<forall>j\<in>set m. \<exists>t. p_time (fst j) = Some t \<and> CHR '','' \<notin> set t"
  shows "map Some (group_times m) = map (\<lambda>j. p_time (fst j)) m \<and>
         (\<forall>t\<in>set (group_times m). CHR '','' \<notin> set t)"
  using assms unfolding group_times_def
  by (induction m) (auto simp: List.map_filter_simps)

lemma group_row_split:
  assumes "m \<noteq> []" and "\<forall>j\<in>set m. \<exists>t. p_time (fst j) = Some t \<and> CHR '','' \<notin> set t"
  shows "map_option (split_on CHR '','') (g_times (group_row m)) = Some (group_times m)"
proof -
  from group_times_texts [OF assms(2)] have
    eq: "map (\<lambda>j. p_time (fst j)) m = map Some (group_times m)"
    and nc: "\<forall>t\<in>set (group_times m). CHR '','' \<notin> set t" by simp_all
  from eq assms(1) have ne: "group_times m \<noteq> []" by auto
  show ?thesis
    by (simp add: group_row_def eq group_concat_texts [OF ne] split_join_comma [OF ne nc])
qed

lemma max_splits_Some: "max_splits_of (map Some xss) = foldr max (map length xss) 0"
  by (induction xss) (simp_all add: max_splits_of_def)

lemma foldr_max_ge: "xs \<in> set xss \<Longrightarrow> length xs \<le> foldr max (map length xss) 0"
  by (induction xss) auto

lemma foldr_max_attained:
  "0 < foldr max (map length xss) 0 \<Longrightarrow> \<exists>xs\<in>set xss. length xs = foldr max (map length xss) 0"
proof (induction xss)
  case Nil
  then show ?case by simp
next
  case (Cons a xss)
  show ?case
  proof (cases "foldr max (map length xss) 0 \<le> length a")
    case True
    then have "foldr max (map length (a # xss)) 0 = length a" by simp
    then show ?thesis by (intro bexI [of _ a]) simp_all
  next
    case False
    then have eq: "foldr max (map length (a # xss)) 0 = foldr max (map length xss) 0"
      by simp
    with Cons.prems have "0 < foldr max (map length xss) 0" by simp
    from Cons.IH [OF this] obtain xs where "xs \<in> set xss"
      "length xs = foldr max (map length xss) 0" by blast
    then show ?thesis unfolding eq by (intro bexI [of _ xs]) simp_all
  qed
qed

lemma length_pad_split: "length ps \<le> n \<Longrightarrow> length (pad_split n (Some ps)) = n"
  by (simp add: pad_split_def)

lemma pivot_times_length: "length (pivot_times gs) = length gs"
  by (simp add: pivot_times_def Let_def split_times_of_def)

lemma pivot_times_same_columns:
  "r \<in> set (pivot_times gs) \<Longrightarrow> r' \<in> set (pivot_times gs) \<Longrightarrow>
   map fst (ip_times r) = map fst (ip_times r')"
  by (auto simp: pivot_times_def Let_def comp_def)

lemma pivot_times_texts:
  assumes st: "split_times_of gs = map Some xss"
  defines "n \<equiv> foldr max (map length xss) 0"
  shows "list_all2 (\<lambda>xs row. map fst (ip_times row) = map time_column_name [0..<n] \<and>
            map snd (ip_times row) = map Some xs @ replicate (n - length xs) None)
          xss (pivot_times gs)"
proof -
  let ?padded = "map (pad_split n) (map Some xss)"
  have ms: "max_splits_of (map Some xss) = n" by (simp add: max_splits_Some n_def)
  have len: "length xss = length gs" using st by (metis length_map split_times_of_def)
  have "\<forall>i\<in>set [0..<n]. list_ex (\<lambda>r. r ! i \<noteq> None) ?padded"
  proof (intro ballI)
    fix i assume "i \<in> set [0..<n]"
    then have i: "i < n" by simp
    then have "0 < foldr max (map length xss) 0" by (simp add: n_def)
    from foldr_max_attained [OF this] obtain xs where xs: "xs \<in> set xss" "length xs = n"
      by (auto simp: n_def)
    with i have "pad_split n (Some xs) ! i \<noteq> None"
      by (simp add: pad_split_def nth_append)
    moreover have "pad_split n (Some xs) \<in> set ?padded" using xs(1) by simp
    ultimately show "list_ex (\<lambda>r. r ! i \<noteq> None) ?padded"
      unfolding list_ex_iff by blast
  qed
  then have kept: "filter (\<lambda>i. list_ex (\<lambda>r. r ! i \<noteq> None) ?padded) [0..<n] = [0..<n]"
    by (rule filter_True)
  have rows: "pivot_times gs =
      map (\<lambda>(g, r). \<lparr>ip_account = g_account g, ip_card_no = g_card_no g, ip_name = g_name g,
                          ip_class = g_class g, ip_date = g_date g,
                          ip_times = map (\<lambda>i. (time_column_name i, r ! i)) [0..<n]\<rparr>)
           (zip gs ?padded)"
    unfolding pivot_times_def Let_def st ms kept ..
  show ?thesis
  proof (rule list_all2_all_nthI)
    show "length xss = length (pivot_times gs)" by (simp add: pivot_times_length len)
  next
    fix i assume i: "i < length xss"
    let ?xs = "xss ! i"
    have le: "length ?xs \<le> n" using i foldr_max_ge [of ?xs xss] by (simp add: n_def)
    have row: "pivot_times gs ! i =
        \<lparr>ip_account = g_account (gs ! i), ip_card_no = g_card_no (gs ! i), ip_name = g_name (gs ! i),
         ip_class = g_class (gs ! i), ip_date = g_date (gs ! i),
         ip_times = map (\<lambda>k. (time_column_name k, pad_split n (Some ?xs) ! k)) [0..<n]\<rparr>"
      unfolding rows using i len by simp
    have "map (\<lambda>k. pad_split n (Some ?xs) ! k) [0..<n] = pad_split n (Some ?xs)"
      using length_pad_split [OF le] by (metis map_nth)
    then show "map fst (ip_times (pivot_times gs ! i)) = map time_column_name [0..<n] \<and>
            map snd (ip_times (pivot_times gs ! i)) = map Some ?xs @ replicate (n - length ?xs) None"
      unfolding row by (simp add: comp_def) (simp add: pad_split_def)
  qed
qed

lemma example_pivot:
  "pivot_times (query_integrate example_punches example_roster) =
     [\<lparr>ip_account = Some ''A1'', ip_card_no = Some ''C1'', ip_name = Some ''Wang'',
       ip_class = Some ''early'', ip_date = Some ''2024-01-05'',
       ip_times = [(''punch_time1'', Some ''08:00:00''), (''punch_time2'', Some ''22:30:00'')]\<rparr>,
      \<lparr>ip_account = Some ''A2'', ip_card_no = Some ''C2'', ip_name = Some ''Li'',
       ip_class = Some ''early'', ip_date = Some ''2024-01-05'',
       ip_times = [(''punch_time1'', Some ''09:00:00''), (''punch_time2'', None)]\<rparr>]"
  by code_simp

lemma example_group_sizes:
  "map length (group_members (left_join example_punches example_roster)) = [2, 1]"
  by code_simp

text \<open>
  C7, as amended. For every dataset the pivot keeps the number of rows and gives every
  row the same time columns. When every punch time is a text without a comma, the
  width \<open>n\<close> is the largest number of joined punch rows of a group (account, date,
  class; a punch counts once for every roster row of its account in the class), the
  columns are \<open>punch_time1\<close> to \<open>punch_time n\<close>, and the row of a group holds
  the times of its members in order, followed by nulls up to the width.
\<close>

theorem pivot_width_is_max_group_size:
  "length (pivot_times (query_integrate ps rs)) = length (query_integrate ps rs) \<and>
   (\<forall>r\<in>set (pivot_times (query_integrate ps rs)). \<forall>r'\<in>set (pivot_times (query_integrate ps rs)).
      map fst (ip_times r) = map fst (ip_times r')) \<and>
   ((\<forall>p\<in>set ps. \<exists>t. p_time p = Some t \<and> CHR '','' \<notin> set t) \<longrightarrow>
      (let groups = group_members (left_join ps rs);
           n = foldr max (map length groups) 0
       in list_all2
            (\<lambda>members row.
               map fst (ip_times row) = map time_column_name [0..<n] \<and>
               map snd (ip_times row) =
                 map (\<lambda>j. p_time (fst j)) members @ replicate (n - length members) None)
            groups (pivot_times (query_integrate ps rs))))"
proof (intro conjI ballI impI)
  show "length (pivot_times (query_integrate ps rs)) = length (query_integrate ps rs)"
    by (rule pivot_times_length)
next
  fix r r'
  assume "r \<in> set (pivot_times (query_integrate ps rs))" "r' \<in> set (pivot_times (query_integrate ps rs))"
  then show "map fst (ip_times r) = map fst (ip_times r')" by (rule pivot_times_same_columns)
next
  assume texts: "\<forall>p\<in>set ps. \<exists>t. p_time p = Some t \<and> CHR '','' \<notin> set t"
  let ?groups = "group_members (left_join ps rs)"
  have mem: "m \<noteq> [] \<and> (\<forall>j\<in>set m. \<exists>t. p_time (fst j) = Some t \<and> CHR '','' \<notin> set t)"
    if "m \<in> set ?groups" for m
    using group_members_nonempty [OF that] left_join_punch [of _ ps rs] texts by blast
  have st: "split_times_of (query_integrate ps rs) = map Some (map group_times ?groups)"
    unfolding split_times_of_def query_integrate_def
    using mem by (simp add: group_row_split)
  have lens: "map length (map group_times ?groups) = map length ?groups"
  proof -
    have "length (group_times m) = length m" if "m \<in> set ?groups" for m
      using group_times_texts [of m] mem [OF that] by (metis length_map)
    then show ?thesis by simp
  qed
  let ?n = "foldr max (map length ?groups) 0"
  have A: "list_all2 (\<lambda>m row. map fst (ip_times row) = map time_column_name [0..<?n] \<and>
            map snd (ip_times row) = map Some (group_times m) @ replicate (?n - length (group_times m)) None)
          ?groups (pivot_times (query_integrate ps rs))"
    using pivot_times_texts [OF st] unfolding lens by (simp add: list_all2_map1)
  have "list_all2 (\<lambda>members row. map fst (ip_times row) = map time_column_name [0..<?n] \<and>
            map snd (ip_times row) = map (\<lambda>j. p_time (fst j)) members @
               replicate (?n - length members) None)
          ?groups (pivot_times (query_integrate ps rs))"
  proof (rule list.rel_mono_strong [OF A])
    fix m row
    assume m: "m \<in> set ?groups"
      and h: "map fst (ip_times row) = map time_column_name [0..<?n] \<and>
          map snd (ip_times row) = map Some (group_times m) @
            replicate (?n - length (group_times m)) None"
    from group_times_texts [of m] mem [OF m] have
      e: "map Some (group_times m) = map (\<lambda>j. p_time (fst j)) m" by simp
    then have "length (group_times m) = length m" by (metis length_map)
    with h e show "map fst (ip_times row) = map time_column_name [0..<?n] \<and>
          map snd (ip_times row) = map (\<lambda>j. p_time (fst j)) m @
            replicate (?n - length m) None" by simp
  qed
  then show "let groups = group_members (left_join ps rs);
           n = foldr max (map length groups) 0
       in list_all2
            (\<lambda>members row.
               map fst (ip_times row) = map time_column_name [0..<n] \<and>
               map snd (ip_times row) =
                 map (\<lambda>j. p_time (fst j)) members @ replicate (n - length members) None)
            groups (pivot_times (query_integrate ps rs))"
    by (simp add: Let_def)
qed

theorem pivot_width_is_max_group_size_witness:
  "(let groups = group_members (left_join example_punches example_roster);
        n = foldr max (map length groups) 0
    in list_all2
         (\<lambda>members row.
            map fst (ip_times row) = map time_column_name [0..<n] \<and>
            map snd (ip_times row) =
              map (\<lambda>j. p_time (fst j)) members @ replicate (n - length members) None)
         groups (pivot_times (query_integrate example_punches example_roster))) \<and>
   map length (group_members (left_join example_punches example_roster)) = [2, 1] \<and>
   map (\<lambda>row. length (ip_times row))
     (pivot_times (query_integrate example_punches example_roster)) = [2, 2]"
proof -
  have texts: "\<forall>p\<in>set example_punches. \<exists>t. p_time p = Some t \<and> CHR '','' \<notin> set t"
    by (simp add: example_punches_def)
  from pivot_width_is_max_group_size [of example_punches example_roster] texts
  have "let groups = group_members (left_join example_punches example_roster);
        n = foldr max (map length groups) 0
    in list_all2
         (\<lambda>members row.
            map fst (ip_times row) = map time_column_name [0..<n] \<and>
            map snd (ip_times row) =
              map (\<lambda>j. p_time (fst j)) members @ replicate (n - length members) None)
         groups (pivot_times (query_integrate example_punches example_roster))"
    by blast
  then show ?thesis by (simp add: example_group_sizes example_pivot)
qed

text \<open>
  The claim as stated fails. For a time text that holds a comma, the only group has one
  punch and the pivot gives it two time columns. For an account that the roster lists
  twice in a class, the join repeats each punch: the dataset has one punch and the
  pivot has two time columns.
\<close>

theorem pivot_width_comma_counterexample:
  "length comma_punches = 1 \<and>
   map length (group_members (left_join comma_punches [])) = [1] \<and>
   map (\<lambda>row. map snd (ip_times row)) (pivot_times (query_integrate comma_punches [])) =
     [[Some ''08'', Some ''00'']] \<and>
   length single_punch = 1 \<and>
   map (\<lambda>row. map snd (ip_times row)) (pivot_times (query_integrate single_punch doubled_roster)) =
     [[Some ''22:30:00'', Some ''22:30:00'']]"
  by code_simp

subsection \<open>\<open>clean_and_store_excel\<close> and \<open>main\<close>\<close>

lemma clean_sheet_one: "clean_sheet example_numeric_text sheet_one = Inr frame_one"
  by code_simp

lemma clean_sheet_two: "clean_sheet example_numeric_text sheet_two = Inr frame_two"
  by code_simp

lemma to_sql_replace_stored: "to_sql_replace df = Inr stored \<Longrightarrow> stored = df"
  by (simp add: to_sql_replace_def split: if_splits)

lemma clean_and_store_loop_all:
  "map (clean_sheet nt) sheets = map Inr dfs \<Longrightarrow> \<forall>df\<in>set dfs. to_sql_replace df = Inr df \<Longrightarrow>
   clean_and_store_loop nt True sheets db n =
     Inr (if dfs = [] then db else db\<lparr>punch := Some (last dfs)\<rparr>,
          n + sum_list (map (\<lambda>df. length (rows df)) dfs))"
proof (induction sheets arbitrary: dfs db n)
  case Nil
  then show ?case by simp
next
  case (Cons sheet sheets)
  then obtain df dfs' where dfs: "dfs = df # dfs'" and c: "clean_sheet nt sheet = Inr df"
    and rest: "map (clean_sheet nt) sheets = map Inr dfs'"
    and stored: "to_sql_replace df = Inr df" "\<forall>df\<in>set dfs'. to_sql_replace df = Inr df"
    by (cases dfs) auto
  show ?case
    unfolding dfs
    using c stored(1)
      Cons.IH [OF rest stored(2), of "db\<lparr>punch := Some df\<rparr>" "n + length (rows df)"]
    by simp
qed

lemma clean_and_store_loop_skip:
  "clean_and_store_loop nt False sheets db n = Inr (db, n)"
  by (induction sheets) simp_all

lemma clean_and_store_loop_completes:
  "clean_and_store_loop nt True sheets db n = Inr r \<Longrightarrow>
   \<exists>dfs. map (clean_sheet nt) sheets = map Inr dfs \<and> (\<forall>df\<in>set dfs. to_sql_replace df = Inr df)"
proof (induction sheets arbitrary: db n)
  case Nil
  then show ?case by simp
next
  case (Cons sheet sheets)
  from Cons.prems obtain df stored where c: "clean_sheet nt sheet = Inr df"
    and st: "to_sql_replace df = Inr stored"
    and rest: "clean_and_store_loop nt True sheets (db\<lparr>punch := Some stored\<rparr>)
                 (n + length (rows df)) = Inr r"
    by (auto split: sum.splits)
  from st have st': "to_sql_replace df = Inr df" using to_sql_replace_stored by blast
  from Cons.IH [OF rest] obtain dfs where "map (clean_sheet nt) sheets = map Inr dfs"
    "\<forall>df\<in>set dfs. to_sql_replace df = Inr df" by blast
  with c st' have "map (clean_sheet nt) (sheet # sheets) = map Inr (df # dfs) \<and>
      (\<forall>d\<in>set (df # dfs). to_sql_replace d = Inr d)" by simp
  then show ?case by blast
qed

lemma example_clean_and_store:
  "clean_and_store_excel example_numeric_text True [sheet_one, sheet_two] empty_db =
     Inr (empty_db\<lparr>punch := Some frame_two\<rparr>, 3)"
  by code_simp

text \<open>
  C8. When \<open>clean_and_store_excel\<close> completes on a workbook with at least one sheet (so
  with two or more), every sheet was cleaned, the table \<open>punch\<close> is the cleaned frame of
  the last sheet, the other tables are untouched, and the returned count is the sum of
  the row counts of all cleaned sheets. (When the path test fails, every sheet is
  skipped, the table is untouched and the count is 0.)
\<close>

theorem last_sheet_replaces_punch:
  "(sheets \<noteq> [] \<and> clean_and_store_excel nt True sheets db = Inr (db', n) \<longrightarrow>
      (\<exists>dfs. map (clean_sheet nt) sheets = map Inr dfs \<and>
             db' = db\<lparr>punch := Some (last dfs)\<rparr> \<and>
             n = sum_list (map (\<lambda>df. length (rows df)) dfs))) \<and>
   clean_and_store_excel nt False sheets db = Inr (db, 0)"
proof (intro conjI impI)
  assume h: "sheets \<noteq> [] \<and> clean_and_store_excel nt True sheets db = Inr (db', n)"
  then have run: "clean_and_store_loop nt True sheets db 0 = Inr (db', n)"
    by (simp add: clean_and_store_excel_def)
  from clean_and_store_loop_completes [OF run] obtain dfs where
    dfs: "map (clean_sheet nt) sheets = map Inr dfs"
    and stored: "\<forall>df\<in>set dfs. to_sql_replace df = Inr df"
    by blast
  with h have ne: "dfs \<noteq> []" by auto
  from clean_and_store_loop_all [OF dfs stored, of db 0] run ne
  have "db' = db\<lparr>punch := Some (last dfs)\<rparr> \<and> n = sum_list (map (\<lambda>df. length (rows df)) dfs)"
    by simp
  with dfs show "\<exists>dfs. map (clean_sheet nt) sheets = map Inr dfs \<and>
             db' = db\<lparr>punch := Some (last dfs)\<rparr> \<and>
             n = sum_list (map (\<lambda>df. length (rows df)) dfs)" by blast
next
  show "clean_and_store_excel nt False sheets db = Inr (db, 0)"
    by (simp add: clean_and_store_excel_def clean_and_store_loop_skip)
qed

theorem last_sheet_replaces_punch_witness:
  "clean_and_store_excel example_numeric_text True [sheet_one, sheet_two] empty_db =
     Inr (empty_db\<lparr>punch := Some frame_two\<rparr>, 3) \<and>
   (\<exists>dfs. map (clean_sheet example_numeric_text) [sheet_one, sheet_two] = map Inr dfs \<and>
         empty_db\<lparr>punch := Some frame_two\<rparr> = empty_db\<lparr>punch := Some (last dfs)\<rparr> \<and>
         (3::nat) = sum_list (map (\<lambda>df. length (rows df)) dfs))"
  using last_sheet_replaces_punch [of "[sheet_one, sheet_two]" example_numeric_text empty_db
      "empty_db\<lparr>punch := Some frame_two\<rparr>" 3]
    example_clean_and_store
  by simp

text \<open>
  What the stores refuse: a column named twice (up to letter case), an integer beyond
  64 bits; and \<open>integrate_data\<close> on a table of punches without rows, where no time column
  is left for its \<open>CREATE TABLE\<close> statement.
\<close>

lemma stores_refuse:
  "to_sql_replace \<lparr>columns = [Text ''seq'', Text ''SEQ''], rows = []\<rparr> = Inl SqlError \<and>
   to_sql_replace \<lparr>columns = [Text ''seq''], rows = [[Num 9223372036854775808]]\<rparr> =
     Inl OverflowError \<and>
   integrate_data
     \<lparr>punch = Some \<lparr>columns = [Text ''account'', Text ''punch_date'', Text ''punch_time''],
                     rows = []\<rparr>,
      shift_class = Some \<lparr>columns = [Text ''account'', Text ''card_no'', Text ''name'',
                                      Text ''shift_class''], rows = []\<rparr>,
      integrated_punch = None\<rparr> = Inl SqlError"
  by code_simp

text \<open>
  A run of \<open>main\<close> with both workbooks present: the punches of the sheet, their dates
  and times normalised, joined to the roster and pivoted.
\<close>

lemma example_run:
  "main example_numeric_text both_files_fs example_config =
     Inr (Completed
       \<lparr>punch = Some
          \<lparr>columns = [Text ''seq'', Text ''account'', Text ''punch_date'', Text ''punch_time''],
           rows = [[Num 1, Text ''A1'', Text ''2024-01-05'', Text ''08:00:00''],
                   [Num 2, Text ''A1'', Text ''2024-01-05'', Text ''22:30:00'']]\<rparr>,
        shift_class = Some
          \<lparr>columns = [Text ''account'', Text ''card_no'', Text ''name'', Text ''shift_class''],
           rows = [[Text ''A1'', Text ''C1'', Text ''Wang'', Text ''early'']]\<rparr>,
        integrated_punch = Some
          [\<lparr>ip_account = Some ''A1'', ip_card_no = Some ''C1'', ip_name = Some ''Wang'',
            ip_class = Some ''early'', ip_date = Some ''2024-01-05'',
            ip_times = [(''punch_time1'', Some ''08:00:00''),
                        (''punch_time2'', Some ''22:30:00'')]\<rparr>]\<rparr>)"
  by code_simp

text \<open>
  C9. What \<open>main\<close> does when the punch workbook exists and the roster workbook is
  absent: it ends with an exception, \<open>FileNotFoundError\<close> when the punch sheets were
  cleaned, because the roster workbook is opened before the test that would skip it.
  An absent punch workbook ends the run by the early return.
\<close>

theorem main_aborts_without_roster:
  "(fs (file_path_1 cfg) = Some wb \<and> fs (file_path_2 cfg) = None \<longrightarrow>
      (\<exists>e. main nt fs cfg = Inl e) \<and>
      (\<forall>db n. clean_and_store_excel nt True wb empty_db = Inr (db, n) \<longrightarrow>
         main nt fs cfg = Inl FileNotFoundError)) \<and>
   (fs (file_path_1 cfg) = None \<longrightarrow> main nt fs cfg = Inr Terminated)"
  by (auto simp: main_def split: sum.splits prod.splits)

theorem main_aborts_without_roster_witness:
  "main example_numeric_text punch_only_fs example_config = Inl FileNotFoundError"
proof -
  have p: "punch_only_fs (file_path_1 example_config) = Some [sheet_one, sheet_two] \<and>
        punch_only_fs (file_path_2 example_config) = None"
    by (simp add: punch_only_fs_def example_config_def)
  from main_aborts_without_roster [of punch_only_fs example_config "[sheet_one, sheet_two]"
      example_numeric_text] p example_clean_and_store
  show ?thesis by blast
qed

end
